theory Spec2Isabelle
  imports Main "HOL-Library.AList"
begin

text \<open>
  The raffle bot of \<open>bot.py\<close>: members of a group send a number from 1 to 6, pay an
  invoice and are entered into the round of their chat; when the chat has reached its limit
  of entries, or an administrator forces it, a die is rolled and the entries with the
  matching number win. The handlers are embedded as functions from the environment of one
  run, the inbound update and the four tables to the exception raised (if any), the tables
  afterwards and the effects on the platform and on the files.
\<close>

section \<open>Python string primitives used by the handlers\<close>

text \<open>
  A Python \<open>str\<close> is modelled as a \<open>string\<close> whose characters are the code points
  below 256 (Latin-1); \<open>of_char c\<close> is the code point. Texts with code points
  above 255 are outside the model. Telegram message texts have at most 4096 characters,
  so the digit-count limit of \<open>int()\<close> (4300 digits) is never reached and is not
  modelled.
\<close>

datatype exn = TelegramError | ValueError | AttributeError

text \<open>\<open>str.isspace\<close> on one character: the Latin-1 code points Python treats as whitespace.\<close>

definition is_space :: "char \<Rightarrow> bool" where
  "is_space c = (let n = (of_char c :: nat)
                 in (9 \<le> n \<and> n \<le> 13) \<or> (28 \<le> n \<and> n \<le> 32) \<or> n = 133 \<or> n = 160)"

text \<open>\<open>str.strip()\<close>: drop whitespace at both ends.\<close>

definition strip :: "string \<Rightarrow> string" where
  "strip s = rev (dropWhile is_space (rev (dropWhile is_space s)))"

definition is_ascii_digit :: "char \<Rightarrow> bool" where
  "is_ascii_digit c = (let n = (of_char c :: nat) in 48 \<le> n \<and> n \<le> 57)"

text \<open>
  \<open>str.isdigit\<close> on one character: the ASCII digits, and the superscript digits
  U+00B2, U+00B3 and U+00B9, which are digits for \<open>isdigit\<close> but not decimal characters.
\<close>

definition is_digit_char :: "char \<Rightarrow> bool" where
  "is_digit_char c = (let n = (of_char c :: nat)
                      in (48 \<le> n \<and> n \<le> 57) \<or> n = 178 \<or> n = 179 \<or> n = 185)"

text \<open>\<open>str.isdigit()\<close>: at least one character, and all of them digits.\<close>

definition isdigit :: "string \<Rightarrow> bool" where
  "isdigit s = (s \<noteq> [] \<and> list_all is_digit_char s)"

definition digit_val :: "char \<Rightarrow> nat" where
  "digit_val c = of_char c - 48"

definition digits_value :: "string \<Rightarrow> nat" where
  "digits_value s = foldl (\<lambda>acc c. 10 * acc + digit_val c) 0 s"

text \<open>
  The whitespace \<open>int()\<close> skips at both ends of its argument: the ASCII whitespace of
  the C parser, and the non-ASCII whitespace that is first turned into a blank.
\<close>

definition is_int_space :: "char \<Rightarrow> bool" where
  "is_int_space c = (let n = (of_char c :: nat)
                     in (9 \<le> n \<and> n \<le> 13) \<or> n = 32 \<or> n = 133 \<or> n = 160)"

text \<open>
  The digits of an \<open>int()\<close> argument after the sign: ASCII digits, with single
  underscores allowed between digits.
\<close>

fun no_double_underscore :: "string \<Rightarrow> bool" where
  "no_double_underscore (a # b # cs) =
     (\<not> (a = CHR ''_'' \<and> b = CHR ''_'') \<and> no_double_underscore (b # cs))"
| "no_double_underscore cs = True"

definition valid_body :: "string \<Rightarrow> bool" where
  "valid_body b = (b \<noteq> [] \<and> list_all (\<lambda>c. is_ascii_digit c \<or> c = CHR ''_'') b
                   \<and> hd b \<noteq> CHR ''_'' \<and> last b \<noteq> CHR ''_'' \<and> no_double_underscore b)"

text \<open>\<open>int(s)\<close> for a string \<open>s\<close>, base 10: the value, or \<open>ValueError\<close>.\<close>

definition py_int :: "string \<Rightarrow> exn + int" where
  "py_int s =
     (let t = rev (dropWhile is_int_space (rev (dropWhile is_int_space s)));
          neg = (t \<noteq> [] \<and> hd t = CHR ''-'');
          body = (if t \<noteq> [] \<and> (hd t = CHR ''-'' \<or> hd t = CHR ''+'') then tl t else t)
      in if valid_body body
         then Inr ((if neg then - 1 else 1)
                   * int (digits_value (filter (\<lambda>c. c \<noteq> CHR ''_'') body)))
         else Inl ValueError)"

text \<open>\<open>str(n)\<close> for an integer: decimal digits, with a minus sign for a negative number.\<close>

definition digit_char :: "nat \<Rightarrow> char" where
  "digit_char d = char_of (48 + d)"

fun digits :: "nat \<Rightarrow> string" where
  "digits n = (if n < 10 then [digit_char n]
               else digits (n div 10) @ [digit_char (n mod 10)])"

declare digits.simps [simp del]

definition str_int :: "int \<Rightarrow> string" where
  "str_int i = (if i < 0 then CHR ''-'' # digits (nat (- i)) else digits (nat i))"

definition chat_key :: "int \<Rightarrow> string" where
  "chat_key cid = str_int cid"

definition user_key :: "int \<Rightarrow> string" where
  "user_key uid = str_int uid"


section \<open>Data model: the four tables\<close>

text \<open>
  The tables are the module's global dictionaries. An inner dictionary of the Players
  table keeps its insertion order (the winners are listed in that order), so it is an
  association list; \<open>AList.update\<close> overwrites in place or appends, as a Python
  dictionary does.
\<close>

record player =
  username :: string
  choice :: int

record pending_rec = player +
  chat_id :: string
  user_id :: string

record round_info =
  result :: int
  winners :: "string list"

text \<open>A Config entry: \<open>max_players\<close> is \<open>None\<close> when the key is missing or not an integer.\<close>

record chat_config =
  max_players :: "int option"

record state =
  players :: "string \<rightharpoonup> (string \<times> player) list"
  pending :: "string \<rightharpoonup> pending_rec"
  config :: "string \<rightharpoonup> chat_config"
  last_round :: "string \<rightharpoonup> round_info"

section \<open>The platform: updates, outbound calls and their outcomes\<close>

datatype chat_type = Private | Group | Supergroup | Channel

record chat =
  c_type :: chat_type
  c_id :: int

text \<open>
  An inbound update: the chat, the sender, the message text, the command arguments and
  the payload of a successful payment. The message and the sender are always present.
\<close>

record update =
  effective_chat :: "chat option"
  from_id :: int
  from_username :: "string option"
  from_first_name :: string
  message_text :: "string option"
  args :: "string list"
  invoice_payload :: "string option"

text \<open>The texts the bot sends, with the values they carry.\<close>

datatype text_msg =
    StartInfo
  | OnlyInGroup string
  | StatusReport nat int
  | AdminOnlyReset
  | RoundReset
  | AdminOnlyLimit
  | CurrentLimit int
  | LimitUsage
  | LimitChanged int
  | AdminOnlyForce
  | ForceStarted nat
  | NoChat
  | NoLastRound
  | LastRoundWinners int "string list"
  | LastRoundNobody int
  | NeedUsername string
  | AlreadyIn string
  | InvoiceSent
  | InvoiceFailed string
  | NoMatchingRound
  | PaymentAccepted int
  | Registered string nat int
  | RoundWinners int "string list"
  | RoundNobody int
  | RoundError exn

text \<open>
  Outbound calls: a reply to the update's message, a message to a chat, an invoice
  (recipient, payload, choice, amount), a dice roll and a member lookup.
\<close>

datatype call =
    ReplyText text_msg
  | SendMessage int text_msg
  | SendInvoice int string int int
  | SendDice int
  | GetChatMember int int

datatype member_status = Creator | Administrator | Member | Restricted | LeftChat | Kicked

text \<open>
  What \<open>send_dice\<close> gives: it raises, or it returns a message whose \<open>dice\<close> may be
  missing and whose \<open>dice.value\<close> may be missing.
\<close>

datatype dice_reply = DiceRaises | DiceMessage "int option option"

text \<open>
  The environment of one handler run: which calls are delivered (the others raise a
  platform error), what the member lookup and the dice roll give, the fresh UUID, the
  local random source, and the constants read from the process environment.
\<close>

record env =
  delivers :: "call \<Rightarrow> bool"
  get_chat_member :: "int \<Rightarrow> int \<Rightarrow> member_status option"
  send_dice :: "int \<Rightarrow> dice_reply"
  uuid4_hex :: string
  random_seed :: nat
  DEFAULT_MAX_PLAYERS :: int
  PRICE_STARS :: int
  AMOUNT_MULTIPLIER :: int

datatype table_file = DATA_FILE | PENDING_FILE | CONFIG_FILE | LAST_ROUND_FILE

text \<open>
  What a handler does besides changing the tables, in order: platform calls, writes of
  table files (with the tables as they are at that moment) and detached tasks running
  \<open>execute_round\<close> for a chat. A failed file write is logged and swallowed by
  \<open>save_json_file\<close>, so a write has no outcome the handler could see.
\<close>

datatype effect = Call call | Persist "table_file list" state | Spawn int

text \<open>
  A handler run gives the exception that left the handler (or none), the tables afterwards
  and the effects. A handler runs from start to end on the tables: other handlers that
  could run while it awaits a platform call are not modelled.
\<close>

type_synonym outcome = "(exn + unit) \<times> state \<times> effect list"

section \<open>Persistence and helpers\<close>

definition save_json_file :: "table_file \<Rightarrow> state \<Rightarrow> effect" where
  "save_json_file path s = Persist [path] s"

definition save_all_data :: "state \<Rightarrow> effect" where
  "save_all_data s = Persist [DATA_FILE, PENDING_FILE, CONFIG_FILE, LAST_ROUND_FILE] s"

definition get_max_players_for_chat :: "env \<Rightarrow> state \<Rightarrow> string \<Rightarrow> int" where
  "get_max_players_for_chat e s ck =
     (case config s ck of
        None \<Rightarrow> DEFAULT_MAX_PLAYERS e
      | Some c \<Rightarrow> (case max_players c of None \<Rightarrow> DEFAULT_MAX_PLAYERS e | Some n \<Rightarrow> n))"

definition set_max_players_for_chat :: "state \<Rightarrow> string \<Rightarrow> int \<Rightarrow> state \<times> effect list" where
  "set_max_players_for_chat s ck new_limit =
     (let c = (case config s ck of None \<Rightarrow> \<lparr>max_players = None\<rparr> | Some c \<Rightarrow> c);
          s' = s\<lparr>config := (config s)(ck \<mapsto> c\<lparr>max_players := Some new_limit\<rparr>)\<rparr>
      in (s', [save_json_file CONFIG_FILE s']))"

text \<open>A failed member lookup counts as "not an administrator".\<close>

definition is_user_admin :: "env \<Rightarrow> int \<Rightarrow> int \<Rightarrow> bool" where
  "is_user_admin e cid uid =
     (case get_chat_member e cid uid of
        None \<Rightarrow> False
      | Some st \<Rightarrow> st = Administrator \<or> st = Creator)"

text \<open>\<open>players.get(ck, {})\<close>\<close>

definition players_get :: "state \<Rightarrow> string \<Rightarrow> (string \<times> player) list" where
  "players_get s ck = (case players s ck of None \<Rightarrow> [] | Some d \<Rightarrow> d)"

definition in_group :: "chat \<Rightarrow> bool" where
  "in_group c = (c_type c = Group \<or> c_type c = Supergroup)"

text \<open>A platform call that raises when it is not delivered.\<close>

definition attempt :: "env \<Rightarrow> call \<Rightarrow> exn + unit" where
  "attempt e c = (if delivers e c then Inr () else Inl TelegramError)"

text \<open>\<open>await update.message.reply_text(m); return\<close>, after the effects \<open>tr\<close>.\<close>

definition reply_text :: "env \<Rightarrow> text_msg \<Rightarrow> state \<Rightarrow> effect list \<Rightarrow> outcome" where
  "reply_text e m s tr = (attempt e (ReplyText m), s, tr @ [Call (ReplyText m)])"

text \<open>\<open>random.randint(a, b)\<close>, from the local random source.\<close>

definition randint :: "int \<Rightarrow> int \<Rightarrow> nat \<Rightarrow> int" where
  "randint a b seed = a + int seed mod (b - a + 1)"


section \<open>Commands\<close>

definition start_private :: "env \<Rightarrow> update \<Rightarrow> state \<Rightarrow> outcome" where
  "start_private e u s =
     (case effective_chat u of
        None \<Rightarrow> (Inl AttributeError, s, [])
      | Some c \<Rightarrow> if c_type c = Private then reply_text e StartInfo s [] else (Inr (), s, []))"

definition status_cmd :: "env \<Rightarrow> update \<Rightarrow> state \<Rightarrow> outcome" where
  "status_cmd e u s =
     (case effective_chat u of
        None \<Rightarrow> (Inl AttributeError, s, [])
      | Some c \<Rightarrow>
          if \<not> in_group c then reply_text e (OnlyInGroup ''status'') s []
          else (let ck = chat_key (c_id c);
                    cnt = length (players_get s ck);
                    maxp = get_max_players_for_chat e s ck
                in reply_text e (StatusReport cnt maxp) s []))"

definition reset_cmd :: "env \<Rightarrow> update \<Rightarrow> state \<Rightarrow> outcome" where
  "reset_cmd e u s =
     (case effective_chat u of
        None \<Rightarrow> (Inl AttributeError, s, [])
      | Some c \<Rightarrow>
          if \<not> in_group c then reply_text e (OnlyInGroup ''reset'') s []
          else (let uid = from_id u;
                    tr = [Call (GetChatMember (c_id c) uid)]
                in if \<not> is_user_admin e (c_id c) uid then reply_text e AdminOnlyReset s tr
                   else (let ck = chat_key (c_id c);
                             s' = s\<lparr>players := (players s)(ck := None)\<rparr>
                         in reply_text e RoundReset s' (tr @ [save_all_data s']))))"

definition setlimit_cmd :: "env \<Rightarrow> update \<Rightarrow> state \<Rightarrow> outcome" where
  "setlimit_cmd e u s =
     (case effective_chat u of
        None \<Rightarrow> (Inl AttributeError, s, [])
      | Some c \<Rightarrow>
          if \<not> in_group c then reply_text e (OnlyInGroup ''setlimit'') s []
          else (let uid = from_id u;
                    cid = c_id c;
                    tr = [Call (GetChatMember cid uid)]
                in if \<not> is_user_admin e cid uid then reply_text e AdminOnlyLimit s tr
                   else (let ck = chat_key cid
                         in case args u of
                              [] \<Rightarrow> reply_text e (CurrentLimit (get_max_players_for_chat e s ck)) s tr
                            | a # _ \<Rightarrow>
                                (case py_int a of
                                   Inl _ \<Rightarrow> reply_text e LimitUsage s tr
                                 | Inr n \<Rightarrow>
                                     if n \<le> 0 then reply_text e LimitUsage s tr
                                     else (let (s', w) = set_max_players_for_chat s ck n
                                           in reply_text e (LimitChanged n) s' (tr @ w))))))"

definition forcestart_cmd :: "env \<Rightarrow> update \<Rightarrow> state \<Rightarrow> outcome" where
  "forcestart_cmd e u s =
     (case effective_chat u of
        None \<Rightarrow> (Inl AttributeError, s, [])
      | Some c \<Rightarrow>
          if \<not> in_group c then reply_text e (OnlyInGroup ''forcestart'') s []
          else (let uid = from_id u;
                    cid = c_id c;
                    tr = [Call (GetChatMember cid uid)]
                in if \<not> is_user_admin e cid uid then reply_text e AdminOnlyForce s tr
                   else (let ck = chat_key cid;
                             cnt = length (players_get s ck);
                             started = ReplyText (ForceStarted cnt)
                         in if delivers e started
                            then (Inr (), s, tr @ [Call started, Spawn cid])
                            else (Inl TelegramError, s, tr @ [Call started]))))"

text \<open>
  \<open>winners_cmd\<close> looks only at whether the chat is known: it never reads the chat type.
  The key of a chat is the decimal form of its identifier, which is never empty.
\<close>

definition winners_cmd :: "env \<Rightarrow> update \<Rightarrow> state \<Rightarrow> outcome" where
  "winners_cmd e u s =
     (case effective_chat u of
        None \<Rightarrow> reply_text e NoChat s []
      | Some c \<Rightarrow>
          (let ck = chat_key (c_id c)
           in if ck = [] then reply_text e NoChat s []
              else (case last_round s ck of
                      None \<Rightarrow> reply_text e NoLastRound s []
                    | Some d \<Rightarrow>
                        if winners d \<noteq> []
                        then reply_text e (LastRoundWinners (result d) (winners d)) s []
                        else reply_text e (LastRoundNobody (result d)) s [])))"

section \<open>Entry admission\<close>

text \<open>
  The \<open>except\<close> branch of the invoice request, after the effects \<open>tr\<close>: the failure
  notice comes first, the removal of the Pending record and the save after it.
\<close>

definition invoice_except :: "env \<Rightarrow> update \<Rightarrow> string \<Rightarrow> state \<Rightarrow> effect list \<Rightarrow> outcome" where
  "invoice_except e u payload s tr =
     (let notice = ReplyText (InvoiceFailed (from_first_name u))
      in if delivers e notice
         then (let s' = s\<lparr>pending := (pending s)(payload := None)\<rparr>
               in (Inr (), s', tr @ [Call notice, save_all_data s']))
         else (Inl TelegramError, s, tr @ [Call notice]))"

text \<open>\<open>(update.message.text or "").strip()\<close>\<close>

definition stripped_text :: "update \<Rightarrow> string" where
  "stripped_text u = strip (case message_text u of None \<Rightarrow> [] | Some t \<Rightarrow> t)"

definition handle_group_message :: "env \<Rightarrow> update \<Rightarrow> state \<Rightarrow> outcome" where
  "handle_group_message e u s =
     (case effective_chat u of
        None \<Rightarrow> (Inl AttributeError, s, [])
      | Some c \<Rightarrow>
          if \<not> in_group c then (Inr (), s, [])
          else (let text = stripped_text u
                in if \<not> isdigit text then (Inr (), s, [])
                   else (case py_int text of
                           Inl err \<Rightarrow> (Inl err, s, [])
                         | Inr n \<Rightarrow>
                             if n < 1 \<or> n > 6 then (Inr (), s, [])
                             else (let uname = (case from_username u of None \<Rightarrow> [] | Some x \<Rightarrow> x)
                                   in if uname = []
                                      then reply_text e (NeedUsername (from_first_name u)) s []
                                      else (let ck = chat_key (c_id c);
                                                uk = user_key (from_id u);
                                                s1 = (if players s ck = None
                                                      then s\<lparr>players := (players s)(ck \<mapsto> [])\<rparr>
                                                      else s)
                                            in if uk \<in> set (map fst (players_get s1 ck))
                                               then reply_text e (AlreadyIn (from_first_name u)) s1 []
                                               else (let payload = ''participation:'' @ uuid4_hex e;
                                                         s2 = s1\<lparr>pending := (pending s1)(payload \<mapsto>
                                                                \<lparr>username = CHR ''@'' # uname, choice = n,
                                                                 chat_id = ck, user_id = uk\<rparr>)\<rparr>;
                                                         invoice = SendInvoice (from_id u) payload n
                                                                     (PRICE_STARS e * AMOUNT_MULTIPLIER e);
                                                         tr = [save_all_data s2, Call invoice]
                                                     in if delivers e invoice
                                                        then (if delivers e (ReplyText InvoiceSent)
                                                              then (Inr (), s2, tr @ [Call (ReplyText InvoiceSent)])
                                                              else invoice_except e u payload s2
                                                                     (tr @ [Call (ReplyText InvoiceSent)]))
                                                        else invoice_except e u payload s2 tr))))))"

section \<open>Payment reconciliation\<close>

definition successful_payment_handler :: "env \<Rightarrow> update \<Rightarrow> state \<Rightarrow> outcome" where
  "successful_payment_handler e u s =
     (case invoice_payload u of
        None \<Rightarrow> reply_text e NoMatchingRound s []
      | Some payload \<Rightarrow>
          if payload = [] then reply_text e NoMatchingRound s []
          else (case pending s payload of
                  None \<Rightarrow> reply_text e NoMatchingRound s []
                | Some r \<Rightarrow>
                    (let s1 = s\<lparr>pending := (pending s)(payload := None)\<rparr>;
                         ck = chat_id r;
                         uk = user_id r;
                         s2 = s1\<lparr>players := (players s1)(ck \<mapsto>
                                AList.update uk \<lparr>username = username r, choice = choice r\<rparr>
                                  (players_get s1 ck))\<rparr>;
                         accepted = ReplyText (PaymentAccepted (choice r));
                         tr = [save_all_data s1, save_all_data s2, Call accepted]
                     in if \<not> delivers e accepted then (Inl TelegramError, s2, tr)
                        else (let cnt = length (players_get s2 ck);
                                  maxp = get_max_players_for_chat e s2 ck;
                                  tr2 = tr @ (case py_int ck of
                                                Inl _ \<Rightarrow> []
                                              | Inr cid \<Rightarrow>
                                                  [Call (SendMessage cid (Registered (username r) cnt maxp))])
                              in if int cnt \<ge> maxp
                                 then (case py_int ck of
                                         Inl err \<Rightarrow> (Inl err, s2, tr2)
                                       | Inr cid \<Rightarrow> (Inr (), s2, tr2 @ [Spawn cid]))
                                 else (Inr (), s2, tr2)))))"

section \<open>Round execution\<close>

text \<open>The \<open>except\<close> branch: a notice to the chat; a failure to send it is swallowed.\<close>

definition round_except :: "int \<Rightarrow> exn \<Rightarrow> state \<Rightarrow> effect list \<Rightarrow> state \<times> effect list" where
  "round_except cid err s tr = (s, tr @ [Call (SendMessage cid (RoundError err))])"

definition draw :: "env \<Rightarrow> int option option \<Rightarrow> int" where
  "draw e d = (case d of
                 Some (Some v) \<Rightarrow> if v \<noteq> 0 then v else randint 1 6 (random_seed e)
               | _ \<Rightarrow> randint 1 6 (random_seed e))"

definition round_winners :: "state \<Rightarrow> string \<Rightarrow> int \<Rightarrow> string list" where
  "round_winners s ck res = map username (filter (\<lambda>info. choice info = res) (map snd (players_get s ck)))"

definition announcement :: "int \<Rightarrow> string list \<Rightarrow> text_msg" where
  "announcement res ws = (if ws \<noteq> [] then RoundWinners res ws else RoundNobody res)"

definition execute_round :: "env \<Rightarrow> int \<Rightarrow> state \<Rightarrow> outcome" where
  "execute_round e cid s =
     (let ck = chat_key cid;
          (s1, tr) =
            (case send_dice e cid of
               DiceRaises \<Rightarrow> round_except cid TelegramError s [Call (SendDice cid)]
             | DiceMessage d \<Rightarrow>
                 (let res = draw e d;
                      ws = round_winners s ck res;
                      msg = SendMessage cid (announcement res ws);
                      tr = [Call (SendDice cid), Call msg]
                  in if delivers e msg
                     then (let s' = s\<lparr>last_round := (last_round s)(ck \<mapsto> \<lparr>result = res, winners = ws\<rparr>)\<rparr>
                           in (s', tr @ [save_json_file LAST_ROUND_FILE s']))
                     else round_except cid TelegramError s tr));
          s2 = s1\<lparr>players := (players s1)(ck := None)\<rparr>
      in (Inr (), s2, tr @ [save_all_data s2]))"


section \<open>Sample inputs\<close>

definition ex_env :: env where
  "ex_env = \<lparr>delivers = (\<lambda>_. True), get_chat_member = (\<lambda>_ _. Some Administrator),
             send_dice = (\<lambda>_. DiceMessage (Some (Some 4))),
             uuid4_hex = ''0123456789abcdef0123456789abcdef'', random_seed = 7,
             DEFAULT_MAX_PLAYERS = 100, PRICE_STARS = 9, AMOUNT_MULTIPLIER = 1\<rparr>"

definition ex_record :: pending_rec where
  "ex_record = \<lparr>username = ''@ann'', choice = 4, chat_id = ''-1005'', user_id = ''11''\<rparr>"

definition ex_token :: string where
  "ex_token = ''participation:0123456789abcdef0123456789abcdef''"

definition ex_state :: state where
  "ex_state = \<lparr>players = Map.empty, pending = [ex_token \<mapsto> ex_record],
               config = Map.empty, last_round = Map.empty\<rparr>"

definition ex_payment :: update where
  "ex_payment = \<lparr>effective_chat = Some \<lparr>c_type = Private, c_id = 11\<rparr>, from_id = 11,
                 from_username = Some ''ann'', from_first_name = ''Ann'', message_text = None,
                 args = [], invoice_payload = Some ex_token\<rparr>"

definition ex_empty :: state where
  "ex_empty = \<lparr>players = Map.empty, pending = Map.empty, config = Map.empty,
               last_round = Map.empty\<rparr>"

definition ex_group :: chat where
  "ex_group = \<lparr>c_type = Supergroup, c_id = - 1005\<rparr>"

text \<open>A command of an administrator in the group, with its arguments.\<close>

definition ex_admin_cmd :: "string list \<Rightarrow> update" where
  "ex_admin_cmd as = \<lparr>effective_chat = Some ex_group, from_id = 7,
                 from_username = Some ''root'', from_first_name = ''Root'', message_text = None,
                 args = as, invoice_payload = None\<rparr>"

text \<open>A text message of the user \<open>ann\<close> in the group.\<close>

definition ex_entry :: "string \<Rightarrow> update" where
  "ex_entry t = \<lparr>effective_chat = Some ex_group, from_id = 11,
                 from_username = Some ''ann'', from_first_name = ''Ann'', message_text = Some t,
                 args = [], invoice_payload = None\<rparr>"

text \<open>A command sent in the private chat of the user \<open>ann\<close>.\<close>

definition ex_private_cmd :: update where
  "ex_private_cmd = \<lparr>effective_chat = Some \<lparr>c_type = Private, c_id = 11\<rparr>, from_id = 11,
                 from_username = Some ''ann'', from_first_name = ''Ann'', message_text = None,
                 args = [], invoice_payload = None\<rparr>"

text \<open>A running round with two entries, an unpaid invoice and two earlier snapshots.\<close>

definition ex_round :: state where
  "ex_round = \<lparr>players = [''-1005'' \<mapsto> [(''12'', \<lparr>username = ''@bob'', choice = 4\<rparr>),
                                       (''13'', \<lparr>username = ''@cy'', choice = 2\<rparr>)]],
               pending = [ex_token \<mapsto> ex_record],
               config = Map.empty,
               last_round = [''-1005'' \<mapsto> \<lparr>result = 1, winners = [''@old'']\<rparr>,
                             ''-2000'' \<mapsto> \<lparr>result = 6, winners = []\<rparr>]\<rparr>"

text \<open>The chat's limit is 1 and one invoice is unpaid.\<close>

definition ex_limit_one :: state where
  "ex_limit_one = \<lparr>players = Map.empty, pending = [ex_token \<mapsto> ex_record],
               config = [''-1005'' \<mapsto> \<lparr>max_players = Some 1\<rparr>], last_round = Map.empty\<rparr>"

text \<open>Another chat holds two entries under the default limit; one invoice is unpaid.\<close>

definition ex_crowded :: state where
  "ex_crowded = \<lparr>players = [''-2000'' \<mapsto> [(''21'', \<lparr>username = ''@dan'', choice = 1\<rparr>),
                                         (''22'', \<lparr>username = ''@eve'', choice = 5\<rparr>)]],
               pending = [ex_token \<mapsto> ex_record],
               config = Map.empty, last_round = Map.empty\<rparr>"

definition ex_setlimit_other :: update where
  "ex_setlimit_other = \<lparr>effective_chat = Some \<lparr>c_type = Group, c_id = - 2000\<rparr>, from_id = 7,
                 from_username = Some ''root'', from_first_name = ''Root'', message_text = None,
                 args = [''1''], invoice_payload = None\<rparr>"

text \<open>Environments in which the platform fails: no call is delivered; no message reaches
  a chat; the dice roll raises; the dice roll reports no value.\<close>

definition ex_env_offline :: env where
  "ex_env_offline = ex_env\<lparr>delivers := (\<lambda>_. False)\<rparr>"

definition ex_env_mute :: env where
  "ex_env_mute = ex_env\<lparr>delivers := (\<lambda>c. case c of SendMessage _ _ \<Rightarrow> False | _ \<Rightarrow> True)\<rparr>"

definition ex_env_dice_down :: env where
  "ex_env_dice_down = ex_env\<lparr>send_dice := (\<lambda>_. DiceRaises)\<rparr>"

definition ex_env_no_value :: env where
  "ex_env_no_value = ex_env\<lparr>send_dice := (\<lambda>_. DiceMessage None)\<rparr>"

section \<open>Reading the effects\<close>

definition calls_of :: "effect list \<Rightarrow> call list" where
  "calls_of tr = concat (map (\<lambda>x. case x of Call c \<Rightarrow> [c] | _ \<Rightarrow> []) tr)"

definition spawns_of :: "effect list \<Rightarrow> int list" where
  "spawns_of tr = concat (map (\<lambda>x. case x of Spawn c \<Rightarrow> [c] | _ \<Rightarrow> []) tr)"

text \<open>
  The admission rule in the specification's words: the text is exactly a decimal integer
  literal, with no other character.
\<close>

definition spec_decimal_literal :: "string \<Rightarrow> bool" where
  "spec_decimal_literal t = (t \<noteq> [] \<and> list_all is_ascii_digit t)"

section \<open>The files behind the tables\<close>

text \<open>
  \<open>save_json_file\<close> replaces the content of a file by the table in memory; when the
  write fails, the error is logged and the file stays as it was. \<open>ok path\<close> says
  whether the file can be written. \<open>files_after\<close> gives the four files after the
  effects of a run, in their order.
\<close>

definition write_table :: "(table_file \<Rightarrow> bool) \<Rightarrow> table_file \<Rightarrow> state \<Rightarrow> state \<Rightarrow> state" where
  "write_table ok path mem files =
     (if \<not> ok path then files
      else (case path of
              DATA_FILE \<Rightarrow> files\<lparr>players := players mem\<rparr>
            | PENDING_FILE \<Rightarrow> files\<lparr>pending := pending mem\<rparr>
            | CONFIG_FILE \<Rightarrow> files\<lparr>config := config mem\<rparr>
            | LAST_ROUND_FILE \<Rightarrow> files\<lparr>last_round := last_round mem\<rparr>))"

fun files_after :: "(table_file \<Rightarrow> bool) \<Rightarrow> effect list \<Rightarrow> state \<Rightarrow> state" where
  "files_after ok [] files = files"
| "files_after ok (Persist paths mem # tr) files =
     files_after ok tr (foldl (\<lambda>fs path. write_table ok path mem fs) files paths)"
| "files_after ok (Call c # tr) files = files_after ok tr files"
| "files_after ok (Spawn cid # tr) files = files_after ok tr files"

section \<open>Rounds belong to groups\<close>

text \<open>
  On the platform the type of a chat belongs to its identifier: \<open>kind\<close> gives it, and
  an update is genuine when its chat has the type of its identifier. A key is a group's key
  when it is the decimal form of the identifier of a group or supergroup. The tables keep
  rounds in groups when every snapshot is stored under a group's key and every Pending
  record names a group's key.
\<close>

definition group_key :: "(int \<Rightarrow> chat_type) \<Rightarrow> string \<Rightarrow> bool" where
  "group_key kind k =
     (case py_int k of
        Inl _ \<Rightarrow> False
      | Inr cid \<Rightarrow> chat_key cid = k \<and> (kind cid = Group \<or> kind cid = Supergroup))"

definition rounds_in_groups :: "(int \<Rightarrow> chat_type) \<Rightarrow> state \<Rightarrow> bool" where
  "rounds_in_groups kind s =
     ((\<forall>k d. last_round s k = Some d \<longrightarrow> group_key kind k)
      \<and> (\<forall>tok r. pending s tok = Some r \<longrightarrow> group_key kind (chat_id r)))"

definition genuine :: "(int \<Rightarrow> chat_type) \<Rightarrow> update \<Rightarrow> bool" where
  "genuine kind u = (case effective_chat u of None \<Rightarrow> True | Some c \<Rightarrow> c_type c = kind (c_id c))"

text \<open>Groups have negative identifiers, private chats positive ones.\<close>

definition ex_kind :: "int \<Rightarrow> chat_type" where
  "ex_kind i = (if i < 0 then Supergroup else Private)"

section \<open>Facts about the string primitives\<close>

lemma ascii_digit_not_special:
  assumes "is_ascii_digit c"
  shows "\<not> is_int_space c" and "c \<noteq> CHR ''_''" and "c \<noteq> CHR ''-''" and "c \<noteq> CHR ''+''"
    and "is_digit_char c" and "\<not> is_space c"
  using assms
  by (auto simp: is_ascii_digit_def is_int_space_def is_digit_char_def is_space_def Let_def)

lemma no_double_underscore_digits:
  "list_all is_ascii_digit b \<Longrightarrow> no_double_underscore b"
  by (induction b rule: no_double_underscore.induct) (auto dest: ascii_digit_not_special(2))

lemma filter_underscore_digits:
  "list_all is_ascii_digit b \<Longrightarrow> filter (\<lambda>c. c \<noteq> CHR ''_'') b = b"
  by (induction b) (auto dest: ascii_digit_not_special(2))

lemma valid_body_digits:
  assumes "list_all is_ascii_digit b" and "b \<noteq> []"
  shows "valid_body b"
proof -
  have "is_ascii_digit (hd b)" "is_ascii_digit (last b)"
    using assms by (auto simp: list_all_iff)
  then have "hd b \<noteq> CHR ''_''" "last b \<noteq> CHR ''_''"
    by (auto dest: ascii_digit_not_special(2))
  moreover have "list_all (\<lambda>c. is_ascii_digit c \<or> c = CHR ''_'') b"
    using assms(1) by (simp add: list_all_iff)
  ultimately show ?thesis
    using assms by (simp add: valid_body_def no_double_underscore_digits)
qed

text \<open>Trimming leaves a text alone when neither end is in the trimmed class.\<close>

lemma trim_digits:
  assumes "is_ascii_digit (last t) \<or> \<not> P (last t)" and "\<not> P (hd t)" and "t \<noteq> []"
    and "\<And>c. is_ascii_digit c \<Longrightarrow> \<not> P c"
  shows "rev (dropWhile P (rev (dropWhile P t))) = t"
proof -
  have a: "dropWhile P t = t" using assms(2,3) by (cases t) auto
  have "\<not> P (last t)" using assms(1,4) by auto
  then have "\<not> P (hd (rev t))" using assms(3) by (simp add: hd_rev)
  then have "dropWhile P (rev t) = rev t" using assms(3) by (cases "rev t") auto
  with a show ?thesis by simp
qed

text \<open>\<open>int()\<close> on a non-empty text of ASCII digits is its decimal value.\<close>

lemma py_int_digits:
  assumes "list_all is_ascii_digit b" and "b \<noteq> []"
  shows "py_int b = Inr (int (digits_value b))"
proof -
  have h: "is_ascii_digit (hd b)" and l: "is_ascii_digit (last b)"
    using assms by (auto simp: list_all_iff)
  have t: "rev (dropWhile is_int_space (rev (dropWhile is_int_space b))) = b"
    by (rule trim_digits) (use h l assms(2) in \<open>auto dest: ascii_digit_not_special(1)\<close>)
  have s: "hd b \<noteq> CHR ''-''" "hd b \<noteq> CHR ''+''"
    using h by (auto dest: ascii_digit_not_special)
  show ?thesis
    unfolding py_int_def t Let_def
    using s assms by (simp add: valid_body_digits filter_underscore_digits)
qed

lemma py_int_minus_digits:
  assumes "list_all is_ascii_digit b" and "b \<noteq> []"
  shows "py_int (CHR ''-'' # b) = Inr (- int (digits_value b))"
proof -
  have l: "is_ascii_digit (last b)"
    using assms by (auto simp: list_all_iff)
  have "\<not> is_int_space (CHR ''-'')" by (simp add: is_int_space_def)
  then have t: "rev (dropWhile is_int_space (rev (dropWhile is_int_space (CHR ''-'' # b))))
                = CHR ''-'' # b"
    by (intro trim_digits) (use l assms(2) in \<open>auto dest: ascii_digit_not_special(1)\<close>)
  show ?thesis
    unfolding py_int_def t Let_def
    using assms by (simp add: valid_body_digits filter_underscore_digits)
qed

lemma digit_val_digit_char: "d < 10 \<Longrightarrow> digit_val (digit_char d) = d"
  by (simp add: digit_val_def digit_char_def)

lemma is_ascii_digit_digit_char: "d < 10 \<Longrightarrow> is_ascii_digit (digit_char d)"
  by (simp add: is_ascii_digit_def digit_char_def)

lemma digits_all_ascii: "list_all is_ascii_digit (digits n)"
proof (induction n rule: digits.induct)
  case (1 n)
  then show ?case
    by (subst digits.simps) (simp add: is_ascii_digit_digit_char)
qed

lemma digits_not_Nil: "digits n \<noteq> []"
  by (subst digits.simps) simp

lemma digits_value_snoc: "digits_value (xs @ [c]) = 10 * digits_value xs + digit_val c"
  by (simp add: digits_value_def)

lemma digits_value_digits: "digits_value (digits n) = n"
proof (induction n rule: digits.induct)
  case (1 n)
  show ?case
  proof (cases "n < 10")
    case True
    then show ?thesis
      by (subst digits.simps) (simp add: digits_value_def digit_val_digit_char)
  next
    case False
    then have "digits_value (digits n)
               = 10 * digits_value (digits (n div 10)) + digit_val (digit_char (n mod 10))"
      by (subst digits.simps) (simp add: digits_value_snoc)
    also have "\<dots> = 10 * (n div 10) + n mod 10"
      using 1 False by (simp add: digit_val_digit_char)
    finally show ?thesis by simp
  qed
qed

text \<open>
  The key of a chat reads back as the chat's identifier: \<open>int(str(n)) = n\<close>. The
  payment handler relies on it when it turns the stored key into the chat to notify.
\<close>

lemma py_int_str_int: "py_int (str_int i) = Inr i"
proof (cases "i < 0")
  case True
  then show ?thesis
    by (simp add: str_int_def py_int_minus_digits digits_all_ascii digits_not_Nil
          digits_value_digits)
next
  case False
  then show ?thesis
    by (simp add: str_int_def py_int_digits digits_all_ascii digits_not_Nil digits_value_digits)
qed

lemma py_int_chat_key: "py_int (chat_key cid) = Inr cid"
  by (simp add: chat_key_def py_int_str_int)

lemma chat_key_not_Nil: "chat_key cid \<noteq> []"
  by (simp add: chat_key_def str_int_def digits_not_Nil)

section \<open>Rules for running the handlers on the sample inputs\<close>

lemma digit_char_simps:
  "digit_char 0 = CHR ''0''" "digit_char (Suc 0) = CHR ''1''" "digit_char 2 = CHR ''2''"
  "digit_char 3 = CHR ''3''" "digit_char 4 = CHR ''4''" "digit_char 5 = CHR ''5''"
  "digit_char 6 = CHR ''6''" "digit_char 7 = CHR ''7''" "digit_char 8 = CHR ''8''"
  "digit_char 9 = CHR ''9''"
  by code_simp+

lemma key_simps:
  "chat_key (- 1005) = ''-1005''" "chat_key (- 2000) = ''-2000''" "chat_key 11 = ''11''"
  "user_key 11 = ''11''"
  by (simp_all add: chat_key_def user_key_def str_int_def digits.simps digit_char_simps)

lemmas py_int_eval = py_int_def is_int_space_def valid_body_def is_ascii_digit_def
  digits_value_def digit_val_def

lemmas text_eval = stripped_text_def strip_def is_space_def isdigit_def is_digit_char_def

lemmas ex_defs = ex_env_def ex_record_def ex_token_def ex_state_def ex_payment_def ex_empty_def
  ex_group_def ex_admin_cmd_def ex_entry_def ex_private_cmd_def
  ex_round_def ex_limit_one_def ex_crowded_def ex_setlimit_other_def ex_env_offline_def
  ex_env_mute_def ex_env_dice_down_def ex_env_no_value_def

lemmas run_defs = reply_text_def attempt_def save_all_data_def save_json_file_def
  players_get_def get_max_players_for_chat_def set_max_players_for_chat_def is_user_admin_def
  in_group_def calls_of_def spawns_of_def Let_def

lemmas round_eval = execute_round_def round_except_def draw_def round_winners_def
  announcement_def randint_def

section \<open>What the handlers do to the tables\<close>

text \<open>
  The tables after a confirmation whose token is pending: whatever the replies do, the
  token is gone and the entry is stored.
\<close>

lemma successful_payment_state:
  assumes "invoice_payload u = Some tok" and "tok \<noteq> []" and "pending s tok = Some r"
  shows "fst (snd (successful_payment_handler e u s))
         = s\<lparr>pending := (pending s)(tok := None),
              players := (players s)(chat_id r \<mapsto>
                 AList.update (user_id r) \<lparr>username = username r, choice = choice r\<rparr>
                   (players_get s (chat_id r)))\<rparr>"
  using assms
  by (simp add: successful_payment_handler_def Let_def players_get_def split: sum.splits)


lemma reset_cmd_state:
  assumes "effective_chat u = Some c" and "in_group c"
    and "is_user_admin e (c_id c) (from_id u)"
  shows "fst (snd (reset_cmd e u s)) = s\<lparr>players := (players s)(chat_key (c_id c) := None)\<rparr>"
  using assms by (simp add: reset_cmd_def reply_text_def Let_def)

text \<open>
  Admission stores a record under the fresh token only, and that token is not empty; no
  other handler adds a key to the Pending table. So the Pending table never holds the
  empty string as a token: the tables are empty when no file exists, and every handler
  keeps this.
\<close>

lemma admission_tokens:
  "pending (fst (snd (handle_group_message e u s))) k = pending s k
   \<or> k = ''participation:'' @ uuid4_hex e"
  by (simp add: handle_group_message_def invoice_except_def reply_text_def Let_def
           split: option.splits sum.splits)

lemma handlers_keep_tokens_nonempty:
  assumes "pending s [] = None"
  shows "pending (fst (snd (handle_group_message e u s))) [] = None"
    and "pending (fst (snd (successful_payment_handler e u s))) [] = None"
    and "pending (fst (snd (execute_round e cid s))) [] = None"
    and "pending (fst (snd (reset_cmd e u s))) [] = None"
    and "pending (fst (snd (setlimit_cmd e u s))) [] = None"
    and "pending (fst (snd (forcestart_cmd e u s))) [] = None"
    and "pending (fst (snd (winners_cmd e u s))) [] = None"
    and "pending (fst (snd (status_cmd e u s))) [] = None"
    and "pending (fst (snd (start_private e u s))) [] = None"
proof -
  show "pending (fst (snd (handle_group_message e u s))) [] = None"
    using admission_tokens [of e u s "[]"] assms by simp
  show "pending (fst (snd (successful_payment_handler e u s))) [] = None"
    using assms
    by (simp add: successful_payment_handler_def reply_text_def Let_def
             split: option.splits sum.splits)
  show "pending (fst (snd (execute_round e cid s))) [] = None"
    using assms
    by (simp add: execute_round_def round_except_def Let_def split: dice_reply.splits)
  show "pending (fst (snd (reset_cmd e u s))) [] = None"
    using assms by (simp add: reset_cmd_def reply_text_def Let_def split: option.splits)
  show "pending (fst (snd (setlimit_cmd e u s))) [] = None"
    using assms
    by (simp add: setlimit_cmd_def reply_text_def set_max_players_for_chat_def Let_def
             split: option.splits list.splits sum.splits)
  show "pending (fst (snd (forcestart_cmd e u s))) [] = None"
    using assms by (simp add: forcestart_cmd_def reply_text_def Let_def split: option.splits)
  show "pending (fst (snd (winners_cmd e u s))) [] = None"
    using assms by (simp add: winners_cmd_def reply_text_def Let_def split: option.splits)
  show "pending (fst (snd (status_cmd e u s))) [] = None"
    using assms by (simp add: status_cmd_def reply_text_def Let_def split: option.splits)
  show "pending (fst (snd (start_private e u s))) [] = None"
    using assms by (simp add: start_private_def reply_text_def Let_def split: option.splits)
qed

section \<open>Round execution always clears the round\<close>

text \<open>
  Claim C2. For every chat identifier, environment and state, \<open>execute_round\<close> returns
  without an exception and leaves no Players entry for the chat: whether or not there were
  winners, and whether or not the dice roll or the announcement raised. The entry is
  removed in the last step of the handler, which awaits nothing.
\<close>

theorem execute_round_clears_round_state:
  "fst (execute_round e cid s) = Inr ()
   \<and> players (fst (snd (execute_round e cid s))) (chat_key cid) = None
   \<and> players_get (fst (snd (execute_round e cid s))) (chat_key cid) = []"
  by (simp add: execute_round_def round_except_def players_get_def Let_def
           split: dice_reply.splits prod.splits)

section \<open>A payment token is consumed at most once\<close>

text \<open>
  Claim C1. The Pending table holds no empty token (every handler keeps this, see
  \<open>handlers_keep_tokens_nonempty\<close>). When the confirmation carries no payload, or a
  token that is absent from the Pending table, the handler replies that no matching round
  was found: the tables are unchanged and the reply is the only effect. When the token is
  present, the handler removes it from Pending and stores the entry in the Players table
  under the record's chat (Config and LastRound are unchanged); a second confirmation with
  the same token then finds it absent and only replies "not found".
\<close>

theorem payment_token_consumed_once:
  assumes "pending s [] = None"
  shows "(invoice_payload u = None \<longrightarrow>
            successful_payment_handler e u s = reply_text e NoMatchingRound s [])
       \<and> (\<forall>tok. invoice_payload u = Some tok \<longrightarrow>
            (pending s tok = None \<longrightarrow>
               successful_payment_handler e u s = reply_text e NoMatchingRound s [])
          \<and> (\<forall>r. pending s tok = Some r \<longrightarrow>
               (let s' = fst (snd (successful_payment_handler e u s))
                in pending s' = (pending s)(tok := None)
                 \<and> players s' = (players s)(chat_id r \<mapsto>
                       AList.update (user_id r) \<lparr>username = username r, choice = choice r\<rparr>
                         (players_get s (chat_id r)))
                 \<and> map_of (players_get s' (chat_id r)) (user_id r)
                       = Some \<lparr>username = username r, choice = choice r\<rparr>
                 \<and> config s' = config s \<and> last_round s' = last_round s
                 \<and> successful_payment_handler e' u s' = reply_text e' NoMatchingRound s' [])))"
proof -
  have none: "successful_payment_handler e u s = reply_text e NoMatchingRound s []"
    if "invoice_payload u = None"
    using that by (simp add: successful_payment_handler_def)
  have absent: "successful_payment_handler e2 u s2 = reply_text e2 NoMatchingRound s2 []"
    if "invoice_payload u = Some tok" "pending s2 tok = None" for e2 s2 tok
    using that by (simp add: successful_payment_handler_def)
  have present: "pending s' = (pending s)(tok := None)
              \<and> players s' = (players s)(chat_id r \<mapsto>
                    AList.update (user_id r) \<lparr>username = username r, choice = choice r\<rparr>
                      (players_get s (chat_id r)))
              \<and> map_of (players_get s' (chat_id r)) (user_id r)
                    = Some \<lparr>username = username r, choice = choice r\<rparr>
              \<and> config s' = config s \<and> last_round s' = last_round s
              \<and> successful_payment_handler e' u s' = reply_text e' NoMatchingRound s' []"
    if p: "invoice_payload u = Some tok" and r: "pending s tok = Some r"
      and s': "s' = fst (snd (successful_payment_handler e u s))"
    for tok r s'
  proof -
    have ne: "tok \<noteq> []" using r assms by auto
    note st = successful_payment_state [OF p ne r, of e]
    have "pending s' tok = None" unfolding s' st by simp
    then have "successful_payment_handler e' u s' = reply_text e' NoMatchingRound s' []"
      by (rule absent [OF p])
    then show ?thesis
      unfolding s' st by (simp add: players_get_def update_Some_unfold)
  qed
  show ?thesis
    unfolding Let_def using none absent present by blast
qed

theorem payment_token_consumed_once_witness:
  "pending ex_state [] = None \<and> pending ex_empty [] = None
   \<and> invoice_payload ex_payment = Some ex_token
   \<and> pending ex_state ex_token = Some ex_record
   \<and> pending (fst (snd (successful_payment_handler ex_env ex_payment ex_state))) ex_token = None
   \<and> players (fst (snd (successful_payment_handler ex_env ex_payment ex_state))) ''-1005''
       = Some [(''11'', \<lparr>username = ''@ann'', choice = 4\<rparr>)]
   \<and> successful_payment_handler ex_env ex_payment
        (fst (snd (successful_payment_handler ex_env ex_payment ex_state)))
      = reply_text ex_env NoMatchingRound
        (fst (snd (successful_payment_handler ex_env ex_payment ex_state))) []
   \<and> pending ex_empty ex_token = None
   \<and> successful_payment_handler ex_env ex_payment ex_empty
      = (Inr (), ex_empty, [Call (ReplyText NoMatchingRound)])
   \<and> invoice_payload (ex_entry ''3'') = None
   \<and> successful_payment_handler ex_env (ex_entry ''3'') ex_state
      = (Inr (), ex_state, [Call (ReplyText NoMatchingRound)])"
proof -
  have i1: "pending ex_state [] = None" by (simp add: ex_state_def ex_token_def)
  have i2: "pending ex_empty [] = None" by (simp add: ex_empty_def)
  have h1: "invoice_payload ex_payment = Some ex_token" by (simp add: ex_payment_def)
  have h3: "pending ex_state ex_token = Some ex_record" by (simp add: ex_state_def)
  have h4: "pending ex_empty ex_token = None" by (simp add: ex_empty_def)
  have h5: "invoice_payload (ex_entry ''3'') = None" by (simp add: ex_entry_def)
  have rp: "reply_text ex_env NoMatchingRound s [] = (Inr (), s, [Call (ReplyText NoMatchingRound)])"
    for s by (simp add: reply_text_def attempt_def ex_env_def)
  from payment_token_consumed_once [OF i2, of ex_payment ex_env] h1 h4
  have A: "successful_payment_handler ex_env ex_payment ex_empty
      = (Inr (), ex_empty, [Call (ReplyText NoMatchingRound)])"
    by (simp add: rp)
  from payment_token_consumed_once [OF i1, of "ex_entry ''3''" ex_env] h5
  have B: "successful_payment_handler ex_env (ex_entry ''3'') ex_state
      = (Inr (), ex_state, [Call (ReplyText NoMatchingRound)])"
    by (simp add: rp)
  from payment_token_consumed_once [OF i1, of ex_payment ex_env ex_env, unfolded Let_def] h1 h3
  have C: "pending (fst (snd (successful_payment_handler ex_env ex_payment ex_state)))
             = (pending ex_state)(ex_token := None)
         \<and> players (fst (snd (successful_payment_handler ex_env ex_payment ex_state)))
             = (players ex_state)(chat_id ex_record \<mapsto>
                  AList.update (user_id ex_record)
                    \<lparr>username = username ex_record, choice = choice ex_record\<rparr>
                    (players_get ex_state (chat_id ex_record)))
         \<and> successful_payment_handler ex_env ex_payment
              (fst (snd (successful_payment_handler ex_env ex_payment ex_state)))
            = reply_text ex_env NoMatchingRound
              (fst (snd (successful_payment_handler ex_env ex_payment ex_state))) []"
    by blast
  show ?thesis
    using i1 i2 h1 h3 h4 h5 A B C
    by (simp add: players_get_def ex_state_def ex_record_def)
qed

section \<open>The threshold check of a reconciliation\<close>



text \<open>
  When the reply to the payer raises, the handler is left before the threshold check: it
  starts nothing, whatever the number of entries.
\<close>

lemma successful_payment_no_spawn_when_reply_fails:
  assumes "invoice_payload u = Some tok" and "tok \<noteq> []" and "pending s tok = Some r"
    and "\<not> delivers e (ReplyText (PaymentAccepted (choice r)))"
  shows "fst (successful_payment_handler e u s) = Inl TelegramError"
    and "spawns_of (snd (snd (successful_payment_handler e u s))) = []"
  using assms
  by (simp_all add: successful_payment_handler_def Let_def spawns_of_def save_all_data_def)


section \<open>Rollback of a Pending record when the invoice fails\<close>

text \<open>
  When the invoice request raises and the failure notice reaches the group, the record
  is removed and the tables are saved.
\<close>

lemma invoice_rollback_when_notice_delivered:
  assumes "delivers e (ReplyText (InvoiceFailed (from_first_name u)))"
  shows "invoice_except e u payload s tr
         = (Inr (), s\<lparr>pending := (pending s)(payload := None)\<rparr>,
            tr @ [Call (ReplyText (InvoiceFailed (from_first_name u))),
                  save_all_data (s\<lparr>pending := (pending s)(payload := None)\<rparr>)])"
  using assms by (simp add: invoice_except_def Let_def)

text \<open>
  When the failure notice raises too, the \<open>except\<close> branch is left before the
  removal: the record stays and nothing is saved after the notice.
\<close>

lemma invoice_rollback_skipped_when_notice_fails:
  assumes "\<not> delivers e (ReplyText (InvoiceFailed (from_first_name u)))"
  shows "invoice_except e u payload s tr
         = (Inl TelegramError, s, tr @ [Call (ReplyText (InvoiceFailed (from_first_name u)))])"
  using assms by (simp add: invoice_except_def Let_def)

text \<open>
  Claim C4 fails on the code. The user \<open>ann\<close> sends \<open>3\<close> in the group while no call
  reaches the platform: the invoice request raises, and so does the failure notice, which
  the handler sends before it removes the record. The exception leaves the handler, the
  invoice was not sent, and the Pending record of the attempt is still in the table.
\<close>

theorem invoice_failure_keeps_pending_record:
  "pending ex_empty ex_token = None
   \<and> fst (handle_group_message ex_env_offline (ex_entry ''3'') ex_empty) = Inl TelegramError
   \<and> calls_of (snd (snd (handle_group_message ex_env_offline (ex_entry ''3'') ex_empty)))
      = [SendInvoice 11 ex_token 3 9, ReplyText (InvoiceFailed ''Ann'')]
   \<and> pending (fst (snd (handle_group_message ex_env_offline (ex_entry ''3'') ex_empty))) ex_token
      = Some \<lparr>username = ''@ann'', choice = 3, chat_id = ''-1005'', user_id = ''11''\<rparr>"
  by (simp add: handle_group_message_def invoice_except_def ex_defs run_defs py_int_eval
        text_eval key_simps)

section \<open>Texts that are not an entry\<close>

text \<open>
  Claim C5, as the code has it. Take a message whose chat is known. If its text, with the
  whitespace at both ends removed, is not a non-empty run of digit characters, or if it is a
  run of ASCII digits whose value is below 1 or above 6, the admission handler returns
  without an exception, changes no table and has no effect at all.
\<close>

theorem malformed_text_ignored:
  assumes "effective_chat u = Some c"
    and "\<not> isdigit (stripped_text u)
         \<or> (list_all is_ascii_digit (stripped_text u)
            \<and> (digits_value (stripped_text u) < 1 \<or> 6 < digits_value (stripped_text u)))"
  shows "handle_group_message e u s = (Inr (), s, [])"
proof (cases "isdigit (stripped_text u)")
  case False
  then show ?thesis using assms(1) by (simp add: handle_group_message_def Let_def)
next
  case True
  then have ne: "stripped_text u \<noteq> []" by (simp add: isdigit_def)
  from True assms(2) have d: "list_all is_ascii_digit (stripped_text u)"
    and r: "digits_value (stripped_text u) < 1 \<or> 6 < digits_value (stripped_text u)"
    by auto
  have "py_int (stripped_text u) = Inr (int (digits_value (stripped_text u)))"
    by (rule py_int_digits [OF d ne])
  then show ?thesis
    using assms(1) r by (auto simp: handle_group_message_def Let_def)
qed

theorem malformed_text_ignored_witness:
  "effective_chat (ex_entry ''hello'') = Some ex_group \<and> \<not> isdigit (stripped_text (ex_entry ''hello''))
   \<and> handle_group_message ex_env (ex_entry ''hello'') ex_round = (Inr (), ex_round, [])
   \<and> list_all is_ascii_digit (stripped_text (ex_entry ''7''))
   \<and> 6 < digits_value (stripped_text (ex_entry ''7''))
   \<and> handle_group_message ex_env (ex_entry ''7'') ex_round = (Inr (), ex_round, [])
   \<and> list_all is_ascii_digit (stripped_text (ex_entry ''0''))
   \<and> digits_value (stripped_text (ex_entry ''0'')) < 1
   \<and> handle_group_message ex_env (ex_entry ''0'') ex_round = (Inr (), ex_round, [])"
proof -
  have c: "effective_chat (ex_entry t) = Some ex_group" for t by (simp add: ex_entry_def)
  have a: "\<not> isdigit (stripped_text (ex_entry ''hello''))"
    by (simp add: text_eval ex_entry_def)
  have b7: "list_all is_ascii_digit (stripped_text (ex_entry ''7''))
            \<and> 6 < digits_value (stripped_text (ex_entry ''7''))"
    by (simp add: text_eval ex_entry_def is_ascii_digit_def digits_value_def digit_val_def)
  have b0: "list_all is_ascii_digit (stripped_text (ex_entry ''0''))
            \<and> digits_value (stripped_text (ex_entry ''0'')) < 1"
    by (simp add: text_eval ex_entry_def is_ascii_digit_def digits_value_def digit_val_def)
  have A: "handle_group_message ex_env (ex_entry ''hello'') ex_round = (Inr (), ex_round, [])"
    using malformed_text_ignored [OF c, of "''hello''" ex_env ex_round] a by blast
  have B: "handle_group_message ex_env (ex_entry ''7'') ex_round = (Inr (), ex_round, [])"
    using malformed_text_ignored [OF c, of "''7''" ex_env ex_round] b7 by blast
  have C: "handle_group_message ex_env (ex_entry ''0'') ex_round = (Inr (), ex_round, [])"
    using malformed_text_ignored [OF c, of "''0''" ex_env ex_round] b0 by blast
  show ?thesis using c a b7 b0 A B C by simp
qed

text \<open>
  The claim as stated fails on a text with a blank before the digit: it is not exactly a
  decimal integer literal, yet the handler strips it, accepts the choice 3, stores a
  Pending record and requests the invoice.
\<close>

theorem malformed_text_ignored_counterexample:
  "\<not> spec_decimal_literal '' 3''
   \<and> pending ex_empty ex_token = None
   \<and> fst (handle_group_message ex_env (ex_entry '' 3'') ex_empty) = Inr ()
   \<and> pending (fst (snd (handle_group_message ex_env (ex_entry '' 3'') ex_empty))) ex_token
      = Some \<lparr>username = ''@ann'', choice = 3, chat_id = ''-1005'', user_id = ''11''\<rparr>
   \<and> calls_of (snd (snd (handle_group_message ex_env (ex_entry '' 3'') ex_empty)))
      = [SendInvoice 11 ex_token 3 9, ReplyText InvoiceSent]"
  by (simp add: handle_group_message_def spec_decimal_literal_def ex_defs run_defs py_int_eval
        text_eval key_simps)

text \<open>
  A text made of a superscript two passes \<open>isdigit\<close> and is then refused by \<open>int()\<close>:
  the handler leaves with \<open>ValueError\<close>. The tables are unchanged.
\<close>

lemma superscript_digit_raises:
  assumes "effective_chat u = Some c" and "in_group c" and "message_text u = Some [CHR 0xB2]"
  shows "handle_group_message e u s = (Inl ValueError, s, [])"
  using assms
  by (simp add: handle_group_message_def text_eval py_int_eval)

section \<open>The dice roll and its fallback\<close>

text \<open>
  Claim C6, as the code has it. When the dice request returns a message that reports no
  value (no dice, no value, or the value 0), the result is drawn locally and lies between
  1 and 6; the winners are the entries of the chat whose choice is that result, in the order
  of the entries, and the announcement of result and winners is sent right after the dice
  request; when it is delivered, result and winners become the chat's snapshot. When the
  dice request raises, there is no fallback: the only message is the error notice, and no
  snapshot is written.
\<close>

theorem dice_without_value_falls_back:
  "(\<forall>d. send_dice e cid = DiceMessage d
         \<and> (d = None \<or> d = Some None \<or> d = Some (Some 0)) \<longrightarrow>
        draw e d = randint 1 6 (random_seed e) \<and> 1 \<le> draw e d \<and> draw e d \<le> 6
      \<and> (let res = draw e d; ck = chat_key cid; ws = round_winners s ck res;
              s' = fst (snd (execute_round e cid s))
          in take 2 (snd (snd (execute_round e cid s)))
               = [Call (SendDice cid), Call (SendMessage cid (announcement res ws))]
           \<and> ws = map username (filter (\<lambda>p. choice p = res) (map snd (players_get s ck)))
           \<and> (delivers e (SendMessage cid (announcement res ws)) \<longrightarrow>
                last_round s' ck = Some \<lparr>result = res, winners = ws\<rparr>)))
   \<and> (send_dice e cid = DiceRaises \<longrightarrow>
        calls_of (snd (snd (execute_round e cid s)))
          = [SendDice cid, SendMessage cid (RoundError TelegramError)]
      \<and> last_round (fst (snd (execute_round e cid s))) = last_round s)"
proof -
  have b: "1 \<le> randint 1 6 n \<and> randint 1 6 n \<le> 6" for n
    by (simp add: randint_def)
  have fallback:
    "draw e d = randint 1 6 (random_seed e) \<and> 1 \<le> draw e d \<and> draw e d \<le> 6
      \<and> (let res = draw e d; ck = chat_key cid; ws = round_winners s ck res;
              s' = fst (snd (execute_round e cid s))
          in take 2 (snd (snd (execute_round e cid s)))
               = [Call (SendDice cid), Call (SendMessage cid (announcement res ws))]
           \<and> ws = map username (filter (\<lambda>p. choice p = res) (map snd (players_get s ck)))
           \<and> (delivers e (SendMessage cid (announcement res ws)) \<longrightarrow>
                last_round s' ck = Some \<lparr>result = res, winners = ws\<rparr>))"
    if m: "send_dice e cid = DiceMessage d"
      and v: "d = None \<or> d = Some None \<or> d = Some (Some 0)" for d
  proof -
    have r: "draw e d = randint 1 6 (random_seed e)"
      using v by (auto simp: draw_def)
    show ?thesis
      using m r b [of "random_seed e"]
      by (simp add: execute_round_def round_except_def round_winners_def Let_def)
  qed
  have abort:
    "calls_of (snd (snd (execute_round e cid s)))
          = [SendDice cid, SendMessage cid (RoundError TelegramError)]
      \<and> last_round (fst (snd (execute_round e cid s))) = last_round s"
    if "send_dice e cid = DiceRaises"
    using that
    by (simp add: execute_round_def round_except_def calls_of_def save_all_data_def Let_def)
  show ?thesis using fallback abort by blast
qed

theorem dice_without_value_falls_back_witness:
  "send_dice ex_env_no_value (- 1005) = DiceMessage None
   \<and> draw ex_env_no_value None = 2
   \<and> round_winners ex_round (chat_key (- 1005)) 2 = [''@cy'']
   \<and> delivers ex_env_no_value (SendMessage (- 1005) (announcement 2 [''@cy'']))
   \<and> take 2 (snd (snd (execute_round ex_env_no_value (- 1005) ex_round)))
      = [Call (SendDice (- 1005)), Call (SendMessage (- 1005) (RoundWinners 2 [''@cy'']))]
   \<and> last_round (fst (snd (execute_round ex_env_no_value (- 1005) ex_round))) (chat_key (- 1005))
      = Some \<lparr>result = 2, winners = [''@cy'']\<rparr>
   \<and> send_dice ex_env_dice_down (- 1005) = DiceRaises
   \<and> calls_of (snd (snd (execute_round ex_env_dice_down (- 1005) ex_round)))
      = [SendDice (- 1005), SendMessage (- 1005) (RoundError TelegramError)]"
proof -
  have d: "send_dice ex_env_no_value (- 1005) = DiceMessage None"
    by (simp add: ex_env_no_value_def)
  have d': "send_dice ex_env_dice_down (- 1005) = DiceRaises"
    by (simp add: ex_env_dice_down_def)
  have r: "draw ex_env_no_value None = 2"
    by (simp add: draw_def randint_def ex_env_no_value_def ex_env_def)
  have w: "round_winners ex_round (chat_key (- 1005)) 2 = [''@cy'']"
    by (simp add: round_winners_def players_get_def ex_round_def key_simps)
  have m: "delivers ex_env_no_value (SendMessage (- 1005) (announcement 2 [''@cy'']))"
    by (simp add: ex_env_no_value_def ex_env_def)
  have a: "announcement 2 [''@cy''] = RoundWinners 2 [''@cy'']" by (simp add: announcement_def)
  from dice_without_value_falls_back [of ex_env_no_value "- 1005" ex_round, unfolded Let_def] d
  have A: "take 2 (snd (snd (execute_round ex_env_no_value (- 1005) ex_round)))
      = [Call (SendDice (- 1005)), Call (SendMessage (- 1005)
           (announcement (draw ex_env_no_value None)
              (round_winners ex_round (chat_key (- 1005)) (draw ex_env_no_value None))))]
    \<and> (delivers ex_env_no_value (SendMessage (- 1005)
           (announcement (draw ex_env_no_value None)
              (round_winners ex_round (chat_key (- 1005)) (draw ex_env_no_value None)))) \<longrightarrow>
        last_round (fst (snd (execute_round ex_env_no_value (- 1005) ex_round))) (chat_key (- 1005))
        = Some \<lparr>result = draw ex_env_no_value None,
                winners = round_winners ex_round (chat_key (- 1005)) (draw ex_env_no_value None)\<rparr>)"
    by blast
  from dice_without_value_falls_back [of ex_env_dice_down "- 1005" ex_round] d'
  have B: "calls_of (snd (snd (execute_round ex_env_dice_down (- 1005) ex_round)))
      = [SendDice (- 1005), SendMessage (- 1005) (RoundError TelegramError)]"
    by blast
  show ?thesis using A B d d' r w m a by simp
qed

text \<open>
  The claim as stated fails when the dice request raises: the round is given up. The chat
  gets the error notice and no announcement, the earlier snapshot stays, and the entries
  are cleared.
\<close>

theorem dice_without_value_falls_back_counterexample:
  "send_dice ex_env_dice_down (- 1005) = DiceRaises
   \<and> fst (execute_round ex_env_dice_down (- 1005) ex_round) = Inr ()
   \<and> calls_of (snd (snd (execute_round ex_env_dice_down (- 1005) ex_round)))
      = [SendDice (- 1005), SendMessage (- 1005) (RoundError TelegramError)]
   \<and> last_round (fst (snd (execute_round ex_env_dice_down (- 1005) ex_round))) ''-1005''
      = Some \<lparr>result = 1, winners = [''@old'']\<rparr>
   \<and> players (fst (snd (execute_round ex_env_dice_down (- 1005) ex_round))) ''-1005'' = None"
  by (simp add: round_eval ex_defs run_defs key_simps)

section \<open>Which commands are tied to a group\<close>

text \<open>
  Outside a group, the four commands \<open>/status\<close>, \<open>/reset\<close>, \<open>/setlimit\<close> and
  \<open>/forcestart\<close> only answer that they work in a group, and \<open>/winners\<close> changes no
  table. But \<open>/winners\<close> never reads the chat type.
\<close>

lemma commands_outside_group:
  assumes "effective_chat u = Some c" and "\<not> in_group c"
  shows "status_cmd e u s = reply_text e (OnlyInGroup ''status'') s []"
    and "reset_cmd e u s = reply_text e (OnlyInGroup ''reset'') s []"
    and "setlimit_cmd e u s = reply_text e (OnlyInGroup ''setlimit'') s []"
    and "forcestart_cmd e u s = reply_text e (OnlyInGroup ''forcestart'') s []"
    and "fst (snd (winners_cmd e u s)) = s"
  using assms
  by (simp_all add: status_cmd_def reset_cmd_def setlimit_cmd_def forcestart_cmd_def
        winners_cmd_def reply_text_def Let_def split: option.splits)

lemma winners_cmd_ignores_chat_type:
  "winners_cmd e (u\<lparr>effective_chat := Some (c\<lparr>c_type := t\<rparr>)\<rparr>) s
   = winners_cmd e (u\<lparr>effective_chat := Some c\<rparr>) s"
  by (simp add: winners_cmd_def)

text \<open>
  A snapshot is written by \<open>execute_round\<close> only, which is started by
  \<open>/forcestart\<close> and by a confirmation only, for the chat of the command or of the
  Pending record; a Pending record is written by admission only, in a group. So the tables
  keep rounds in groups: they do when they are empty, every handler keeps it on a genuine
  update, the tasks started are tasks for groups, and a round executed for a group keeps it.
\<close>

lemma group_key_chat_key:
  "group_key kind (chat_key cid) \<longleftrightarrow> (kind cid = Group \<or> kind cid = Supergroup)"
  by (simp add: group_key_def py_int_chat_key)

lemma group_key_py_int:
  assumes "group_key kind k"
  shows "\<exists>cid. py_int k = Inr cid \<and> k = chat_key cid \<and> (kind cid = Group \<or> kind cid = Supergroup)"
  using assms by (auto simp: group_key_def split: sum.splits)

text \<open>A chat that is not a group has no snapshot.\<close>

lemma no_snapshot_outside_group:
  assumes "rounds_in_groups kind s" and "c_type c = kind (c_id c)" and "\<not> in_group c"
  shows "last_round s (chat_key (c_id c)) = None"
proof (cases "last_round s (chat_key (c_id c))")
  case None
  then show ?thesis .
next
  case (Some d)
  with assms(1) have "group_key kind (chat_key (c_id c))"
    by (auto simp: rounds_in_groups_def)
  then have "kind (c_id c) = Group \<or> kind (c_id c) = Supergroup"
    by (simp add: group_key_chat_key)
  with assms(2,3) show ?thesis by (simp add: in_group_def)
qed

lemma handlers_keep_rounds_in_groups:
  assumes "rounds_in_groups kind s" and "genuine kind u"
  shows "rounds_in_groups kind (fst (snd (handle_group_message e u s)))"
    and "rounds_in_groups kind (fst (snd (successful_payment_handler e u s)))"
    and "rounds_in_groups kind (fst (snd (reset_cmd e u s)))"
    and "rounds_in_groups kind (fst (snd (setlimit_cmd e u s)))"
    and "rounds_in_groups kind (fst (snd (forcestart_cmd e u s)))"
    and "rounds_in_groups kind (fst (snd (winners_cmd e u s)))"
    and "rounds_in_groups kind (fst (snd (status_cmd e u s)))"
    and "rounds_in_groups kind (fst (snd (start_private e u s)))"
proof -
  show "rounds_in_groups kind (fst (snd (handle_group_message e u s)))"
    using assms
    by (auto simp: handle_group_message_def invoice_except_def reply_text_def Let_def
          rounds_in_groups_def genuine_def in_group_def group_key_chat_key
          split: option.splits sum.splits if_splits)
  show "rounds_in_groups kind (fst (snd (successful_payment_handler e u s)))"
    using assms(1)
    by (auto simp: successful_payment_handler_def reply_text_def Let_def rounds_in_groups_def
          split: option.splits sum.splits if_splits)
  show "rounds_in_groups kind (fst (snd (reset_cmd e u s)))"
    using assms(1)
    by (auto simp: reset_cmd_def reply_text_def Let_def rounds_in_groups_def
          split: option.splits)
  show "rounds_in_groups kind (fst (snd (setlimit_cmd e u s)))"
    using assms(1)
    by (auto simp: setlimit_cmd_def reply_text_def set_max_players_for_chat_def Let_def
          rounds_in_groups_def split: option.splits list.splits sum.splits)
  show "rounds_in_groups kind (fst (snd (forcestart_cmd e u s)))"
    using assms(1)
    by (auto simp: forcestart_cmd_def reply_text_def Let_def rounds_in_groups_def
          split: option.splits)
  show "rounds_in_groups kind (fst (snd (winners_cmd e u s)))"
    using assms(1)
    by (auto simp: winners_cmd_def reply_text_def Let_def split: option.splits)
  show "rounds_in_groups kind (fst (snd (status_cmd e u s)))"
    using assms(1)
    by (auto simp: status_cmd_def reply_text_def Let_def split: option.splits)
  show "rounds_in_groups kind (fst (snd (start_private e u s)))"
    using assms(1)
    by (auto simp: start_private_def reply_text_def Let_def split: option.splits)
qed

lemma handlers_spawn_for_groups:
  assumes "rounds_in_groups kind s" and "genuine kind u"
  shows "cid \<in> set (spawns_of (snd (snd (successful_payment_handler e u s))))
           \<Longrightarrow> kind cid = Group \<or> kind cid = Supergroup"
    and "cid \<in> set (spawns_of (snd (snd (forcestart_cmd e u s))))
           \<Longrightarrow> kind cid = Group \<or> kind cid = Supergroup"
proof -
  assume a: "cid \<in> set (spawns_of (snd (snd (successful_payment_handler e u s))))"
  show "kind cid = Group \<or> kind cid = Supergroup"
  proof (cases "invoice_payload u")
    case None
    with a show ?thesis
      by (simp add: successful_payment_handler_def reply_text_def spawns_of_def)
  next
    case (Some tok)
    show ?thesis
    proof (cases "tok = [] \<or> pending s tok = None")
      case True
      with a Some show ?thesis
        by (auto simp: successful_payment_handler_def reply_text_def spawns_of_def Let_def
              split: option.splits if_splits)
    next
      case False
      then obtain r where r: "pending s tok = Some r" and ne: "tok \<noteq> []" by auto
      from assms(1) r have "group_key kind (chat_id r)"
        by (auto simp: rounds_in_groups_def)
      then obtain c' where c': "py_int (chat_id r) = Inr c'"
          "kind c' = Group \<or> kind c' = Supergroup"
        by (auto dest: group_key_py_int)
      from a Some r ne c'(1) have "cid = c'"
        by (auto simp: successful_payment_handler_def Let_def spawns_of_def save_all_data_def
              split: if_splits)
      with c'(2) show ?thesis by simp
    qed
  qed
next
  assume a: "cid \<in> set (spawns_of (snd (snd (forcestart_cmd e u s))))"
  then show "kind cid = Group \<or> kind cid = Supergroup"
    using assms(2)
    by (auto simp: forcestart_cmd_def reply_text_def Let_def spawns_of_def genuine_def
          in_group_def split: option.splits if_splits)
qed

lemma execute_round_keeps_rounds_in_groups:
  assumes "rounds_in_groups kind s" and "kind cid = Group \<or> kind cid = Supergroup"
  shows "rounds_in_groups kind (fst (snd (execute_round e cid s)))"
  using assms
  by (auto simp: execute_round_def round_except_def rounds_in_groups_def Let_def
        group_key_chat_key split: dice_reply.splits if_splits)

lemma empty_tables_rounds_in_groups: "rounds_in_groups kind ex_empty"
  by (simp add: rounds_in_groups_def ex_empty_def)

text \<open>
  Claim C7. Take tables that keep rounds in groups, and a genuine command sent in a chat
  that is neither a group nor a supergroup. Then \<open>/winners\<close> reports no round: it
  answers that there is no information on the last round. \<open>/status\<close>, \<open>/reset\<close>,
  \<open>/setlimit\<close> and \<open>/forcestart\<close> answer that they work in a group only. In all
  five cases the tables are unchanged and the reply is the only effect: no file is
  written and no round is started.
\<close>

theorem commands_group_scoped:
  assumes "rounds_in_groups kind s" and "effective_chat u = Some c"
    and "c_type c = kind (c_id c)" and "\<not> in_group c"
  shows "winners_cmd e u s = (attempt e (ReplyText NoLastRound), s, [Call (ReplyText NoLastRound)])
       \<and> status_cmd e u s = (attempt e (ReplyText (OnlyInGroup ''status'')), s,
                              [Call (ReplyText (OnlyInGroup ''status''))])
       \<and> reset_cmd e u s = (attempt e (ReplyText (OnlyInGroup ''reset'')), s,
                              [Call (ReplyText (OnlyInGroup ''reset''))])
       \<and> setlimit_cmd e u s = (attempt e (ReplyText (OnlyInGroup ''setlimit'')), s,
                              [Call (ReplyText (OnlyInGroup ''setlimit''))])
       \<and> forcestart_cmd e u s = (attempt e (ReplyText (OnlyInGroup ''forcestart'')), s,
                              [Call (ReplyText (OnlyInGroup ''forcestart''))])"
proof -
  have "last_round s (chat_key (c_id c)) = None"
    by (rule no_snapshot_outside_group [OF assms(1,3,4)])
  then have "winners_cmd e u s
             = (attempt e (ReplyText NoLastRound), s, [Call (ReplyText NoLastRound)])"
    using assms(2) by (simp add: winners_cmd_def reply_text_def chat_key_not_Nil Let_def)
  then show ?thesis
    using commands_outside_group(1-4) [OF assms(2,4), of e s]
    by (simp add: reply_text_def)
qed

theorem commands_group_scoped_witness:
  "rounds_in_groups ex_kind ex_round
   \<and> effective_chat ex_private_cmd = Some \<lparr>c_type = Private, c_id = 11\<rparr>
   \<and> c_type \<lparr>c_type = Private, c_id = 11\<rparr> = ex_kind (c_id \<lparr>c_type = Private, c_id = 11\<rparr>)
   \<and> \<not> in_group \<lparr>c_type = Private, c_id = 11\<rparr>
   \<and> last_round ex_round ''-1005'' = Some \<lparr>result = 1, winners = [''@old'']\<rparr>
   \<and> winners_cmd ex_env ex_private_cmd ex_round
       = (Inr (), ex_round, [Call (ReplyText NoLastRound)])
   \<and> status_cmd ex_env ex_private_cmd ex_round
       = (Inr (), ex_round, [Call (ReplyText (OnlyInGroup ''status''))])
   \<and> reset_cmd ex_env ex_private_cmd ex_round
       = (Inr (), ex_round, [Call (ReplyText (OnlyInGroup ''reset''))])
   \<and> setlimit_cmd ex_env ex_private_cmd ex_round
       = (Inr (), ex_round, [Call (ReplyText (OnlyInGroup ''setlimit''))])
   \<and> forcestart_cmd ex_env ex_private_cmd ex_round
       = (Inr (), ex_round, [Call (ReplyText (OnlyInGroup ''forcestart''))])"
proof -
  have g: "group_key ex_kind ''-1005''" "group_key ex_kind ''-2000''"
    by (simp_all add: group_key_def py_int_eval key_simps ex_kind_def)
  have i: "rounds_in_groups ex_kind ex_round"
    using g by (auto simp: rounds_in_groups_def ex_round_def ex_record_def split: if_splits)
  have c: "effective_chat ex_private_cmd = Some \<lparr>c_type = Private, c_id = 11\<rparr>"
    by (simp add: ex_private_cmd_def)
  have k: "c_type \<lparr>c_type = Private, c_id = 11\<rparr> = ex_kind (c_id \<lparr>c_type = Private, c_id = 11\<rparr>)"
    by (simp add: ex_kind_def)
  have n: "\<not> in_group \<lparr>c_type = Private, c_id = 11\<rparr>"
    by (simp add: in_group_def)
  have o: "last_round ex_round ''-1005'' = Some \<lparr>result = 1, winners = [''@old'']\<rparr>"
    by (simp add: ex_round_def)
  have a: "attempt ex_env x = Inr ()" for x by (simp add: attempt_def ex_env_def)
  show ?thesis
    using commands_group_scoped [OF i c k n, of ex_env] i c k n o by (simp add: a)
qed

section \<open>Setting the limit of a chat\<close>

text \<open>
  Claim C8. An administrator sends \<open>/setlimit\<close> with an argument in a group. If
  \<open>int()\<close> reads the argument as a number \<open>n\<close> above 0, then afterwards the limit of
  the chat is \<open>n\<close>, the Config entry of the chat holds \<open>n\<close>, and every other Config
  entry and the other tables are unchanged. The effects are the member lookup, one write of
  the Config file with the new tables, and the confirmation; so, when the Config file can
  be written, it holds the new Config table afterwards, the limit read from it is \<open>n\<close>,
  and the other three files are as they were. If the argument is not a number, or is a
  number not above 0, the command only replies with the usage hint: the tables (so the
  limit too) and all four files are unchanged.
\<close>

theorem setlimit_cmd_with_argument:
  assumes "effective_chat u = Some c" and "in_group c"
    and "is_user_admin e (c_id c) (from_id u)" and "args u = a # rest"
  shows "(\<forall>n. py_int a = Inr n \<and> 0 < n \<longrightarrow>
            (let s' = fst (snd (setlimit_cmd e u s)); tr = snd (snd (setlimit_cmd e u s))
             in get_max_players_for_chat e' s' (chat_key (c_id c)) = n
              \<and> (\<exists>cfg. config s' (chat_key (c_id c)) = Some cfg \<and> max_players cfg = Some n)
              \<and> (\<forall>k. k \<noteq> chat_key (c_id c) \<longrightarrow> config s' k = config s k)
              \<and> players s' = players s \<and> pending s' = pending s \<and> last_round s' = last_round s
              \<and> tr = [Call (GetChatMember (c_id c) (from_id u)), Persist [CONFIG_FILE] s',
                       Call (ReplyText (LimitChanged n))]
              \<and> (\<forall>ok files. ok CONFIG_FILE \<longrightarrow>
                    config (files_after ok tr files) = config s'
                  \<and> get_max_players_for_chat e' (files_after ok tr files) (chat_key (c_id c)) = n
                  \<and> players (files_after ok tr files) = players files
                  \<and> pending (files_after ok tr files) = pending files
                  \<and> last_round (files_after ok tr files) = last_round files)))
       \<and> ((case py_int a of Inl _ \<Rightarrow> True | Inr n \<Rightarrow> n \<le> 0) \<longrightarrow>
            setlimit_cmd e u s
              = (attempt e (ReplyText LimitUsage), s,
                 [Call (GetChatMember (c_id c) (from_id u)), Call (ReplyText LimitUsage)])
          \<and> (\<forall>ok files. files_after ok (snd (snd (setlimit_cmd e u s))) files = files))"
proof -
  have good: "(let s' = fst (snd (setlimit_cmd e u s)); tr = snd (snd (setlimit_cmd e u s))
             in get_max_players_for_chat e' s' (chat_key (c_id c)) = n
              \<and> (\<exists>cfg. config s' (chat_key (c_id c)) = Some cfg \<and> max_players cfg = Some n)
              \<and> (\<forall>k. k \<noteq> chat_key (c_id c) \<longrightarrow> config s' k = config s k)
              \<and> players s' = players s \<and> pending s' = pending s \<and> last_round s' = last_round s
              \<and> tr = [Call (GetChatMember (c_id c) (from_id u)), Persist [CONFIG_FILE] s',
                       Call (ReplyText (LimitChanged n))]
              \<and> (\<forall>ok files. ok CONFIG_FILE \<longrightarrow>
                    config (files_after ok tr files) = config s'
                  \<and> get_max_players_for_chat e' (files_after ok tr files) (chat_key (c_id c)) = n
                  \<and> players (files_after ok tr files) = players files
                  \<and> pending (files_after ok tr files) = pending files
                  \<and> last_round (files_after ok tr files) = last_round files))"
    if "py_int a = Inr n" "0 < n" for n
    using assms that
    by (simp add: setlimit_cmd_def reply_text_def set_max_players_for_chat_def
          save_json_file_def get_max_players_for_chat_def write_table_def Let_def
          split: option.splits)
  have bad: "setlimit_cmd e u s
              = (attempt e (ReplyText LimitUsage), s,
                 [Call (GetChatMember (c_id c) (from_id u)), Call (ReplyText LimitUsage)])
          \<and> (\<forall>ok files. files_after ok (snd (snd (setlimit_cmd e u s))) files = files)"
    if "case py_int a of Inl _ \<Rightarrow> True | Inr n \<Rightarrow> n \<le> 0"
    using assms that
    by (auto simp: setlimit_cmd_def reply_text_def Let_def split: sum.splits)
  show ?thesis using good bad by blast
qed

theorem setlimit_cmd_with_argument_witness:
  "effective_chat (ex_admin_cmd [''50'']) = Some ex_group \<and> in_group ex_group
   \<and> is_user_admin ex_env (c_id ex_group) (from_id (ex_admin_cmd [''50'']))
   \<and> args (ex_admin_cmd [''50'']) = [''50''] \<and> py_int ''50'' = Inr 50
   \<and> get_max_players_for_chat ex_env ex_round ''-1005'' = 100
   \<and> get_max_players_for_chat ex_env
        (fst (snd (setlimit_cmd ex_env (ex_admin_cmd [''50'']) ex_round))) ''-1005'' = 50
   \<and> snd (snd (setlimit_cmd ex_env (ex_admin_cmd [''50'']) ex_round))
      = [Call (GetChatMember (- 1005) 7),
         Persist [CONFIG_FILE] (fst (snd (setlimit_cmd ex_env (ex_admin_cmd [''50'']) ex_round))),
         Call (ReplyText (LimitChanged 50))]
   \<and> config ex_empty ''-1005'' = None
   \<and> config (files_after (\<lambda>_. True)
        (snd (snd (setlimit_cmd ex_env (ex_admin_cmd [''50'']) ex_round))) ex_empty) ''-1005''
      = Some \<lparr>max_players = Some 50\<rparr>
   \<and> get_max_players_for_chat ex_env (files_after (\<lambda>_. True)
        (snd (snd (setlimit_cmd ex_env (ex_admin_cmd [''50'']) ex_round))) ex_empty) ''-1005'' = 50
   \<and> py_int ''0'' = Inr 0
   \<and> setlimit_cmd ex_env (ex_admin_cmd [''0'']) ex_round
      = (Inr (), ex_round, [Call (GetChatMember (- 1005) 7), Call (ReplyText LimitUsage)])
   \<and> files_after (\<lambda>_. True) (snd (snd (setlimit_cmd ex_env (ex_admin_cmd [''0'']) ex_round)))
        ex_empty = ex_empty
   \<and> py_int ''ten'' = Inl ValueError
   \<and> setlimit_cmd ex_env (ex_admin_cmd [''ten'']) ex_round
      = (Inr (), ex_round, [Call (GetChatMember (- 1005) 7), Call (ReplyText LimitUsage)])"
proof -
  have h1: "effective_chat (ex_admin_cmd as) = Some ex_group" for as
    by (simp add: ex_admin_cmd_def)
  have h2: "in_group ex_group" by (simp add: in_group_def ex_group_def)
  have h3: "is_user_admin ex_env (c_id ex_group) (from_id (ex_admin_cmd as))" for as
    by (simp add: is_user_admin_def ex_env_def)
  have h4: "args (ex_admin_cmd [a]) = a # []" for a by (simp add: ex_admin_cmd_def)
  have k: "chat_key (c_id ex_group) = ''-1005''" by (simp add: ex_group_def key_simps)
  have i: "c_id ex_group = - 1005" "from_id (ex_admin_cmd as) = 7" for as
    by (simp_all add: ex_group_def ex_admin_cmd_def)
  have p50: "py_int ''50'' = Inr 50" by (simp add: py_int_eval)
  have p0: "py_int ''0'' = Inr 0" by (simp add: py_int_eval)
  have pt: "py_int ''ten'' = Inl ValueError" by (simp add: py_int_eval)
  have d: "get_max_players_for_chat ex_env ex_round ''-1005'' = 100"
    by (simp add: get_max_players_for_chat_def ex_round_def ex_env_def)
  have ce: "config ex_empty ''-1005'' = None" by (simp add: ex_empty_def)
  have cr: "config ex_round ''-1005'' = None" by (simp add: ex_round_def)
  have a: "attempt ex_env x = Inr ()" for x by (simp add: attempt_def ex_env_def)
  note T50 = setlimit_cmd_with_argument [OF h1 h2 h3 h4 [of "''50''"],
            where s = ex_round and e' = ex_env, unfolded Let_def]
  have pos: "(0::int) < 50" by simp
  note P = T50 [THEN conjunct1, rule_format, OF conjI [OF p50 pos]]
  from P have A:
    "get_max_players_for_chat ex_env
        (fst (snd (setlimit_cmd ex_env (ex_admin_cmd [''50'']) ex_round))) ''-1005'' = 50
     \<and> (\<exists>cfg. config (fst (snd (setlimit_cmd ex_env (ex_admin_cmd [''50'']) ex_round))) ''-1005''
               = Some cfg \<and> max_players cfg = Some 50)
     \<and> snd (snd (setlimit_cmd ex_env (ex_admin_cmd [''50'']) ex_round))
      = [Call (GetChatMember (- 1005) 7),
         Persist [CONFIG_FILE] (fst (snd (setlimit_cmd ex_env (ex_admin_cmd [''50'']) ex_round))),
         Call (ReplyText (LimitChanged 50))]"
    by (simp add: i key_simps)
  from P have Q:
    "\<forall>ok files. ok CONFIG_FILE \<longrightarrow>
       config (files_after ok
         (snd (snd (setlimit_cmd ex_env (ex_admin_cmd [''50'']) ex_round))) files)
       = config (fst (snd (setlimit_cmd ex_env (ex_admin_cmd [''50'']) ex_round)))
     \<and> get_max_players_for_chat ex_env (files_after ok
         (snd (snd (setlimit_cmd ex_env (ex_admin_cmd [''50'']) ex_round))) files)
           (chat_key (c_id ex_group)) = 50"
    by blast
  from Q [rule_format, of "\<lambda>_. True" ex_empty] have F:
    "config (files_after (\<lambda>_. True)
        (snd (snd (setlimit_cmd ex_env (ex_admin_cmd [''50'']) ex_round))) ex_empty)
      = config (fst (snd (setlimit_cmd ex_env (ex_admin_cmd [''50'']) ex_round)))
     \<and> get_max_players_for_chat ex_env (files_after (\<lambda>_. True)
        (snd (snd (setlimit_cmd ex_env (ex_admin_cmd [''50'']) ex_round))) ex_empty) ''-1005'' = 50"
    by (simp add: k)
  from A obtain cfg where cfg:
    "config (fst (snd (setlimit_cmd ex_env (ex_admin_cmd [''50'']) ex_round))) ''-1005'' = Some cfg"
    "max_players cfg = Some 50"
    by blast
  then have G: "config (files_after (\<lambda>_. True)
        (snd (snd (setlimit_cmd ex_env (ex_admin_cmd [''50'']) ex_round))) ex_empty) ''-1005''
      = Some \<lparr>max_players = Some 50\<rparr>"
    using F by (cases cfg) simp
  from setlimit_cmd_with_argument [OF h1 h2 h3 h4 [of "''0''"],
            where s = ex_round and e' = ex_env, unfolded Let_def] p0
  have B0: "setlimit_cmd ex_env (ex_admin_cmd [''0'']) ex_round
      = (attempt ex_env (ReplyText LimitUsage), ex_round,
         [Call (GetChatMember (c_id ex_group) (from_id (ex_admin_cmd [''0'']))),
          Call (ReplyText LimitUsage)])
    \<and> (\<forall>ok files. files_after ok
           (snd (snd (setlimit_cmd ex_env (ex_admin_cmd [''0'']) ex_round))) files = files)"
    by simp
  then have B: "setlimit_cmd ex_env (ex_admin_cmd [''0'']) ex_round
      = (Inr (), ex_round, [Call (GetChatMember (- 1005) 7), Call (ReplyText LimitUsage)])
    \<and> files_after (\<lambda>_. True) (snd (snd (setlimit_cmd ex_env (ex_admin_cmd [''0'']) ex_round)))
        ex_empty = ex_empty"
    by (metis a i)
  from setlimit_cmd_with_argument [OF h1 h2 h3 h4 [of "''ten''"],
            where s = ex_round and e' = ex_env, unfolded Let_def] pt
  have C: "setlimit_cmd ex_env (ex_admin_cmd [''ten'']) ex_round
      = (Inr (), ex_round, [Call (GetChatMember (- 1005) 7), Call (ReplyText LimitUsage)])"
    by (simp add: a i key_simps)
  show ?thesis using h1 h2 h3 h4 p50 p0 pt d ce A F G B C by simp
qed

section \<open>The snapshot of the last round\<close>

text \<open>
  Claim C9, as the code has it. Executing a round for a chat leaves the snapshot of every
  other chat unchanged. When the dice request returns and the announcement is delivered,
  the chat's snapshot afterwards is the result and the winners of this execution. When the
  dice request raises, or the announcement is not delivered, no snapshot changes: the chat
  keeps the snapshot of an earlier execution, if it had one.
\<close>

theorem execute_round_snapshot:
  "(let s' = fst (snd (execute_round e cid s)); ck = chat_key cid
    in (\<forall>k. k \<noteq> ck \<longrightarrow> last_round s' k = last_round s k)
     \<and> (\<forall>d. send_dice e cid = DiceMessage d
             \<and> delivers e (SendMessage cid
                  (announcement (draw e d) (round_winners s ck (draw e d)))) \<longrightarrow>
            last_round s' ck
              = Some \<lparr>result = draw e d, winners = round_winners s ck (draw e d)\<rparr>)
     \<and> (send_dice e cid = DiceRaises \<longrightarrow> last_round s' = last_round s)
     \<and> (\<forall>d. send_dice e cid = DiceMessage d
             \<and> \<not> delivers e (SendMessage cid
                  (announcement (draw e d) (round_winners s ck (draw e d)))) \<longrightarrow>
            last_round s' = last_round s))"
proof (cases "send_dice e cid")
  case DiceRaises
  then show ?thesis
    by (simp add: execute_round_def round_except_def Let_def)
next
  case (DiceMessage d)
  show ?thesis
  proof (cases "delivers e (SendMessage cid
                  (announcement (draw e d) (round_winners s (chat_key cid) (draw e d))))")
    case True
    with DiceMessage show ?thesis
      by (simp add: execute_round_def round_except_def Let_def)
  next
    case False
    with DiceMessage show ?thesis
      by (simp add: execute_round_def round_except_def Let_def)
  qed
qed

theorem execute_round_snapshot_witness:
  "send_dice ex_env (- 1005) = DiceMessage (Some (Some 4))
   \<and> draw ex_env (Some (Some 4)) = 4
   \<and> round_winners ex_round (chat_key (- 1005)) 4 = [''@bob'']
   \<and> delivers ex_env (SendMessage (- 1005) (announcement 4 [''@bob'']))
   \<and> last_round (fst (snd (execute_round ex_env (- 1005) ex_round))) (chat_key (- 1005))
      = Some \<lparr>result = 4, winners = [''@bob'']\<rparr>
   \<and> ''-2000'' \<noteq> chat_key (- 1005)
   \<and> last_round (fst (snd (execute_round ex_env (- 1005) ex_round))) ''-2000''
      = Some \<lparr>result = 6, winners = []\<rparr>
   \<and> send_dice ex_env_dice_down (- 1005) = DiceRaises
   \<and> last_round (fst (snd (execute_round ex_env_dice_down (- 1005) ex_round)))
      = last_round ex_round
   \<and> send_dice ex_env_mute (- 1005) = DiceMessage (Some (Some 4))
   \<and> \<not> delivers ex_env_mute (SendMessage (- 1005) (announcement 4 [''@bob'']))
   \<and> last_round (fst (snd (execute_round ex_env_mute (- 1005) ex_round)))
      = last_round ex_round"
proof -
  have d: "send_dice ex_env (- 1005) = DiceMessage (Some (Some 4))"
          "send_dice ex_env_mute (- 1005) = DiceMessage (Some (Some 4))"
          "send_dice ex_env_dice_down (- 1005) = DiceRaises"
    by (simp_all add: ex_env_def ex_env_mute_def ex_env_dice_down_def)
  have r: "draw ex_env (Some (Some 4)) = 4" "draw ex_env_mute (Some (Some 4)) = 4"
    by (simp_all add: draw_def)
  have w: "round_winners ex_round (chat_key (- 1005)) 4 = [''@bob'']"
    by (simp add: round_winners_def players_get_def ex_round_def key_simps)
  have m: "delivers ex_env (SendMessage (- 1005) (announcement 4 [''@bob'']))"
          "\<not> delivers ex_env_mute (SendMessage (- 1005) (announcement 4 [''@bob'']))"
    by (simp_all add: ex_env_def ex_env_mute_def)
  have k: "''-2000'' \<noteq> chat_key (- 1005)" by (simp add: key_simps)
  have o: "last_round ex_round ''-2000'' = Some \<lparr>result = 6, winners = []\<rparr>"
    by (simp add: ex_round_def)
  note T = execute_round_snapshot [of ex_env "- 1005" ex_round, unfolded Let_def]
  from T d(1) r(1) w m(1) have A:
    "last_round (fst (snd (execute_round ex_env (- 1005) ex_round))) (chat_key (- 1005))
      = Some \<lparr>result = 4, winners = [''@bob'']\<rparr>"
    by (metis (no_types, lifting))
  from T k o have B:
    "last_round (fst (snd (execute_round ex_env (- 1005) ex_round))) ''-2000''
      = Some \<lparr>result = 6, winners = []\<rparr>"
    by (metis (no_types, lifting))
  from execute_round_snapshot [of ex_env_dice_down "- 1005" ex_round, unfolded Let_def] d(3)
  have C: "last_round (fst (snd (execute_round ex_env_dice_down (- 1005) ex_round)))
      = last_round ex_round"
    by blast
  from execute_round_snapshot [of ex_env_mute "- 1005" ex_round, unfolded Let_def] d(2) r(2) w m(2)
  have D: "last_round (fst (snd (execute_round ex_env_mute (- 1005) ex_round)))
      = last_round ex_round"
    by (metis (no_types, lifting))
  show ?thesis using d r w m k A B C D by simp
qed

text \<open>
  The claim as stated fails when the announcement cannot be sent. The dice shows 4 and
  @bob wins, but no message reaches the chat: the execution ends with the error branch,
  and the snapshot of the chat is still the one of the earlier round, not result 4 with
  winner @bob.
\<close>

theorem execute_round_snapshot_counterexample:
  "last_round ex_round ''-1005'' = Some \<lparr>result = 1, winners = [''@old'']\<rparr>
   \<and> calls_of (snd (snd (execute_round ex_env_mute (- 1005) ex_round)))
      = [SendDice (- 1005), SendMessage (- 1005) (RoundWinners 4 [''@bob'']),
         SendMessage (- 1005) (RoundError TelegramError)]
   \<and> fst (execute_round ex_env_mute (- 1005) ex_round) = Inr ()
   \<and> last_round (fst (snd (execute_round ex_env_mute (- 1005) ex_round))) ''-1005''
      = Some \<lparr>result = 1, winners = [''@old'']\<rparr>
   \<and> last_round (fst (snd (execute_round ex_env_mute (- 1005) ex_round))) ''-1005''
      \<noteq> Some \<lparr>result = 4, winners = [''@bob'']\<rparr>"
  by (simp add: round_eval ex_defs run_defs key_simps)

section \<open>A reset clears one round and nothing else\<close>

text \<open>
  Claim C10. When an administrator sends \<open>/reset\<close> in a group, the Players table loses
  the entry of that chat and nothing else; the Pending, Config and LastRound tables are
  unchanged. So a confirmation that arrives afterwards for a token of that chat, pending
  before the reset (in a Pending table without an empty token), still consumes the token,
  and the payer becomes the only entry of the chat's new round.
\<close>

theorem reset_cmd_frame:
  assumes "effective_chat u = Some c" and "in_group c"
    and "is_user_admin e (c_id c) (from_id u)" and "pending s [] = None"
  shows "(let s' = fst (snd (reset_cmd e u s))
          in players s' = (players s)(chat_key (c_id c) := None)
           \<and> pending s' = pending s \<and> config s' = config s \<and> last_round s' = last_round s
           \<and> (\<forall>u' tok r. invoice_payload u' = Some tok \<and> pending s tok = Some r
                  \<and> chat_id r = chat_key (c_id c) \<longrightarrow>
                (let s'' = fst (snd (successful_payment_handler e' u' s'))
                 in pending s'' tok = None
                  \<and> players s'' (chat_key (c_id c))
                      = Some [(user_id r, \<lparr>username = username r, choice = choice r\<rparr>)])))"
proof -
  let ?s' = "s\<lparr>players := (players s)(chat_key (c_id c) := None)\<rparr>"
  have st: "fst (snd (reset_cmd e u s)) = ?s'"
    by (rule reset_cmd_state [OF assms(1-3)])
  have pay: "pending s'' tok = None
             \<and> players s'' (chat_key (c_id c))
                 = Some [(user_id r, \<lparr>username = username r, choice = choice r\<rparr>)]"
    if "invoice_payload u' = Some tok" "pending s tok = Some r"
       "chat_id r = chat_key (c_id c)"
       "s'' = fst (snd (successful_payment_handler e' u' ?s'))"
    for u' tok r s''
  proof -
    have ne: "tok \<noteq> []" using that(2) assms(4) by auto
    have "pending ?s' tok = Some r" using that(2) by simp
    from successful_payment_state [OF that(1) ne this, of e']
    show ?thesis using that(3,4) by (simp add: players_get_def)
  qed
  show ?thesis
    unfolding Let_def st using pay by simp
qed

theorem reset_cmd_frame_witness:
  "effective_chat (ex_admin_cmd []) = Some ex_group \<and> in_group ex_group
   \<and> is_user_admin ex_env (c_id ex_group) (from_id (ex_admin_cmd []))
   \<and> pending ex_round [] = None
   \<and> players ex_round ''-1005'' = Some [(''12'', \<lparr>username = ''@bob'', choice = 4\<rparr>),
                                        (''13'', \<lparr>username = ''@cy'', choice = 2\<rparr>)]
   \<and> players (fst (snd (reset_cmd ex_env (ex_admin_cmd []) ex_round))) ''-1005'' = None
   \<and> pending (fst (snd (reset_cmd ex_env (ex_admin_cmd []) ex_round))) ex_token = Some ex_record
   \<and> invoice_payload ex_payment = Some ex_token
   \<and> chat_id ex_record = chat_key (c_id ex_group)
   \<and> pending (fst (snd (successful_payment_handler ex_env ex_payment
        (fst (snd (reset_cmd ex_env (ex_admin_cmd []) ex_round)))))) ex_token = None
   \<and> players (fst (snd (successful_payment_handler ex_env ex_payment
        (fst (snd (reset_cmd ex_env (ex_admin_cmd []) ex_round)))))) ''-1005''
      = Some [(''11'', \<lparr>username = ''@ann'', choice = 4\<rparr>)]"
proof -
  have h1: "effective_chat (ex_admin_cmd []) = Some ex_group" by (simp add: ex_admin_cmd_def)
  have h2: "in_group ex_group" by (simp add: in_group_def ex_group_def)
  have h3: "is_user_admin ex_env (c_id ex_group) (from_id (ex_admin_cmd []))"
    by (simp add: is_user_admin_def ex_env_def)
  have h4: "pending ex_round [] = None" by (simp add: ex_round_def ex_token_def)
  have k: "chat_key (c_id ex_group) = ''-1005''" by (simp add: ex_group_def key_simps)
  have p: "invoice_payload ex_payment = Some ex_token
           \<and> pending ex_round ex_token = Some ex_record \<and> chat_id ex_record = chat_key (c_id ex_group)"
    by (simp add: ex_payment_def ex_token_def ex_round_def ex_record_def k)
  note T = reset_cmd_frame [OF h1 h2 h3 h4, of ex_env, unfolded Let_def]
  from T have A: "players (fst (snd (reset_cmd ex_env (ex_admin_cmd []) ex_round)))
                    = (players ex_round)(chat_key (c_id ex_group) := None)
                  \<and> pending (fst (snd (reset_cmd ex_env (ex_admin_cmd []) ex_round)))
                    = pending ex_round"
    by blast
  from T p have B: "pending (fst (snd (successful_payment_handler ex_env ex_payment
        (fst (snd (reset_cmd ex_env (ex_admin_cmd []) ex_round)))))) ex_token = None
   \<and> players (fst (snd (successful_payment_handler ex_env ex_payment
        (fst (snd (reset_cmd ex_env (ex_admin_cmd []) ex_round)))))) (chat_key (c_id ex_group))
      = Some [(user_id ex_record, \<lparr>username = username ex_record, choice = choice ex_record\<rparr>)]"
    by blast
  have C: "players ex_round ''-1005'' = Some [(''12'', \<lparr>username = ''@bob'', choice = 4\<rparr>),
                                        (''13'', \<lparr>username = ''@cy'', choice = 2\<rparr>)]"
    by (simp add: ex_round_def)
  show ?thesis
    using h1 h2 h3 h4 p A B C by (simp add: k ex_record_def)
qed

end
